theory Spec2Isabelle
  imports Complex_Main
begin

section \<open>Python values\<close>

text \<open>
  A Python \<open>str\<close> is a sequence of Unicode code points. Code points are natural numbers;
  \<open>asc\<close> turns an ASCII literal into its code points.
\<close>

type_synonym ustr = "nat list"

definition asc :: "string \<Rightarrow> ustr" where
  "asc s = map of_char s"

text \<open>
  A Python \<open>float\<close> is kept as the number it denotes (every finite binary64 value is a
  rational) or one of the three special values. The scripts never compute with floats:
  they only pass them on and compare them. Which rational a float literal of a text
  becomes is the business of \<open>float\<close>, a parameter of the model below.
\<close>

datatype pyfloat = Fin rat | PInf | NInf | NaN

text \<open>
  What \<open>json.loads\<close> returns: \<open>None\<close>, \<open>bool\<close>, \<open>int\<close>, \<open>float\<close>, \<open>str\<close>, \<open>list\<close> and
  \<open>dict\<close> (insertion-ordered, keys are strings).
\<close>

datatype json =
    JNull
  | JBool bool
  | JInt int
  | JFloat pyfloat
  | JStr ustr
  | JArr "json list"
  | JObj "(ustr \<times> json) list"

text \<open>The exceptions the scripts can raise, and \<open>sys.exit\<close>.\<close>

datatype exn =
    KeyError
  | TypeError
  | ValueError
  | IndexError
  | AttributeError
  | JSONDecodeError
  | RuntimeError
  | UnicodeEncodeError
  | SystemExit

text \<open>A computation that may raise: \<open>Inl\<close> is the exception, \<open>Inr\<close> the value.\<close>

fun bnd :: "exn + 'a \<Rightarrow> ('a \<Rightarrow> exn + 'b) \<Rightarrow> exn + 'b" where
  "bnd (Inl e) f = Inl e"
| "bnd (Inr x) f = f x"

text \<open>A comprehension or \<open>for\<close> loop that builds a list: left to right, stops at the first raise.\<close>

fun map_r :: "('a \<Rightarrow> exn + 'b) \<Rightarrow> 'a list \<Rightarrow> exn + 'b list" where
  "map_r f [] = Inr []"
| "map_r f (x # xs) = bnd (f x) (\<lambda>y. bnd (map_r f xs) (\<lambda>ys. Inr (y # ys)))"

subsection \<open>Equality and hashing\<close>

text \<open>
  \<open>==\<close> on the values that can be members of a dedup key: numbers compare by value across
  \<open>bool\<close>, \<open>int\<close> and \<open>float\<close> (\<open>True == 1 == 1.0\<close>), \<open>nan\<close> equals nothing, strings
  compare by content.
\<close>

fun num_val :: "json \<Rightarrow> pyfloat option" where
  "num_val (JBool b) = Some (Fin (if b then 1 else 0))"
| "num_val (JInt n) = Some (Fin (of_int n))"
| "num_val (JFloat x) = Some x"
| "num_val _ = None"

fun py_eq :: "json \<Rightarrow> json \<Rightarrow> bool" where
  "py_eq JNull JNull = True"
| "py_eq (JStr s) (JStr t) = (s = t)"
| "py_eq a b =
     (case (num_val a, num_val b) of
        (Some x, Some y) \<Rightarrow> x = y \<and> x \<noteq> NaN
      | _ \<Rightarrow> False)"

text \<open>
  Membership in a set, a dict or a list (\<open>in\<close>, and the lookup of a dict key) compares
  with \<open>is\<close> before \<open>==\<close>, element by element inside a tuple. Every \<open>nan\<close> that
  \<open>json.loads\<close> returns is the one object \<open>json.decoder.NaN\<close>, so among the values of
  this program a \<open>nan\<close> is found where a \<open>nan\<close> is a member, although \<open>nan == nan\<close>
  is false; for every other value \<open>is\<close> implies \<open>==\<close>.
\<close>

definition key_eq :: "json \<Rightarrow> json \<Rightarrow> bool" where
  "key_eq a b = ((a = JFloat NaN \<and> b = JFloat NaN) \<or> py_eq a b)"

text \<open>\<open>hash(x)\<close> raises \<open>TypeError\<close> on a list or a dict.\<close>

fun hashable :: "json \<Rightarrow> bool" where
  "hashable (JArr xs) = False"
| "hashable (JObj kvs) = False"
| "hashable _ = True"

subsection \<open>Subscripts, membership, iteration\<close>

text \<open>\<open>x[k]\<close> with a string \<open>k\<close>.\<close>

fun getitem :: "json \<Rightarrow> ustr \<Rightarrow> exn + json" where
  "getitem (JObj kvs) k = (case map_of kvs k of None \<Rightarrow> Inl KeyError | Some v \<Rightarrow> Inr v)"
| "getitem _ k = Inl TypeError"

text \<open>\<open>x[0]\<close>.\<close>

fun getitem0 :: "json \<Rightarrow> exn + json" where
  "getitem0 (JArr xs) = (case xs of [] \<Rightarrow> Inl IndexError | x # _ \<Rightarrow> Inr x)"
| "getitem0 (JStr s) = (case s of [] \<Rightarrow> Inl IndexError | c # _ \<Rightarrow> Inr (JStr [c]))"
| "getitem0 (JObj kvs) = Inl KeyError"
| "getitem0 _ = Inl TypeError"

fun substr :: "ustr \<Rightarrow> ustr \<Rightarrow> bool" where
  "substr k [] = (k = [])"
| "substr k (c # cs) = (take (length k) (c # cs) = k \<or> substr k cs)"

text \<open>\<open>k in x\<close> with a string \<open>k\<close>.\<close>

fun contains :: "ustr \<Rightarrow> json \<Rightarrow> exn + bool" where
  "contains k (JObj kvs) = Inr (map_of kvs k \<noteq> None)"
| "contains k (JArr xs) = Inr (list_ex (key_eq (JStr k)) xs)"
| "contains k (JStr s) = Inr (substr k s)"
| "contains k _ = Inl TypeError"

text \<open>\<open>for e in x\<close>: a list gives its elements, a dict its keys, a string its characters.\<close>

fun py_iter :: "json \<Rightarrow> exn + json list" where
  "py_iter (JArr xs) = Inr xs"
| "py_iter (JObj kvs) = Inr (map (\<lambda>kv. JStr (fst kv)) kvs)"
| "py_iter (JStr s) = Inr (map (\<lambda>c. JStr [c]) s)"
| "py_iter _ = Inl TypeError"

section \<open>utils.py\<close>

text \<open>
  \<^verbatim>\<open>{"token": alt["token"], "logprob": ["logprob"]}\<close>: the second value is the list literal
  \<^verbatim>\<open>["logprob"]\<close>, as the source has it.
\<close>

definition top_alt :: "json \<Rightarrow> exn + json" where
  "top_alt alt =
     bnd (getitem alt (asc ''token'')) (\<lambda>tok.
     Inr (JObj [(asc ''token'', tok), (asc ''logprob'', JArr [JStr (asc ''logprob'')])]))"

definition clean_entry :: "json \<Rightarrow> exn + json" where
  "clean_entry entry =
     bnd (getitem entry (asc ''token'')) (\<lambda>tok.
     bnd (getitem entry (asc ''logprob'')) (\<lambda>lp.
     bnd (getitem entry (asc ''top_logprobs'')) (\<lambda>tl.
     bnd (py_iter tl) (\<lambda>alts.
     bnd (map_r top_alt alts) (\<lambda>top_alts.
     Inr (JObj [(asc ''token'', tok), (asc ''logprob'', lp),
                (asc ''top_alts'', JArr top_alts)]))))))"

definition normalise_logprobs :: "json \<Rightarrow> exn + json" where
  "normalise_logprobs logprobs_obj =
     bnd (contains (asc ''content'') logprobs_obj) (\<lambda>has.
     if \<not> has then Inr (JArr [])
     else
       bnd (getitem logprobs_obj (asc ''content'')) (\<lambda>content.
       bnd (py_iter content) (\<lambda>entries.
       bnd (map_r clean_entry entries) (\<lambda>cleaned.
       Inr (JArr cleaned)))))"

subsection \<open>Line-delimited JSON files\<close>

text \<open>
  The scripts read the answers file, the evaluation log and the batch output one line at a
  time and look at a line only through \<open>json.loads\<close>. A line is therefore kept as what
  \<open>json.loads\<close> makes of it: \<open>None\<close> when it raises \<open>json.JSONDecodeError\<close>, otherwise
  the value. (A line with an \<open>int\<close> literal of more digits than the interpreter allows,
  on which \<open>json.loads\<close> raises \<open>ValueError\<close>, is not among the lines of these files.)
  A file is the list of its lines, each of them ended by a newline, as every
  line is that \<open>append_jsonl\<close> writes; a missing log file and an empty one behave alike
  (\<open>load_done\<close> returns the empty set, \<open>append_jsonl\<close> creates the file). A log whose
  last line lacks its newline is not among these files: \<open>append_jsonl\<close> opens the log for
  appending, so the text it writes would continue that line instead of starting a new one.

  \<open>append_jsonl\<close> writes \<open>json.dumps(record, ensure_ascii=False)\<close> and a newline to a file
  opened with the UTF-8 encoding. The write raises \<open>UnicodeEncodeError\<close> and leaves the file
  as it was when a string of the record holds a surrogate code point; otherwise the new
  line is one that \<open>json.loads\<close> reads back as the record.
\<close>

type_synonym jsonl = "json option list"

definition utf8_ok :: "ustr \<Rightarrow> bool" where
  "utf8_ok s = list_all (\<lambda>c. \<not> (55296 \<le> c \<and> c \<le> 57343)) s"

fun encodable :: "json \<Rightarrow> bool" where
  "encodable (JStr s) = utf8_ok s"
| "encodable (JArr xs) = list_all encodable xs"
| "encodable (JObj kvs) = list_all (\<lambda>kv. utf8_ok (fst kv) \<and> encodable (snd kv)) kvs"
| "encodable _ = True"

definition append_jsonl :: "json \<Rightarrow> jsonl \<Rightarrow> exn + jsonl" where
  "append_jsonl record path =
     (if encodable record then Inr (path @ [Some record]) else Inl UnicodeEncodeError)"

section \<open>Strings\<close>

text \<open>
  The parts of the Unicode character database and of \<open>repr\<close> that the scripts reach
  only through the interpreter, for code points outside ASCII: whether a code point is
  alphanumeric (\<open>str.isalnum\<close>, the \<open>\w\<close> of \<open>re\<close>), \<open>str.lower\<close> on a string that is
  not pure ASCII, the value of a decimal digit (\<open>int\<close> accepts all of them), \<open>str\<close>
  of a float, a list or a dict, and \<open>float\<close> of the text of a float literal, which rounds
  the decimal number to a binary64 value or an infinity. They are parameters of the model;
  everything on ASCII is written out. So is one setting of the interpreter,
  \<open>sys.get_int_max_str_digits()\<close>: the greatest number of digits of a decimal string
  converted to an \<open>int\<close>, 4300 unless it is changed, 0 for no bound.
\<close>

record pylib =
  alnum_hi :: "nat \<Rightarrow> bool"
  lower_hi :: "ustr \<Rightarrow> ustr"
  decimal_hi :: "nat \<Rightarrow> nat option"
  repr_hi :: "json \<Rightarrow> ustr"
  float_hi :: "ustr \<Rightarrow> pyfloat"
  max_str_digits :: nat

text \<open>\<open>str.isspace\<close>, also the \<open>\s\<close> of \<open>re\<close> and what \<open>str.strip()\<close> removes.\<close>

definition isspace :: "nat \<Rightarrow> bool" where
  "isspace c =
     ((9 \<le> c \<and> c \<le> 13) \<or> (28 \<le> c \<and> c \<le> 32) \<or> c = 133 \<or> c = 160 \<or> c = 5760 \<or>
      (8192 \<le> c \<and> c \<le> 8202) \<or> c = 8232 \<or> c = 8233 \<or> c = 8239 \<or> c = 8287 \<or>
      c = 12288)"

text \<open>The \<open>\w\<close> of \<open>re\<close> on a \<open>str\<close> pattern: alphanumeric or underscore.\<close>

definition is_word :: "pylib \<Rightarrow> nat \<Rightarrow> bool" where
  "is_word U c =
     (if c < 128
      then (48 \<le> c \<and> c \<le> 57) \<or> (65 \<le> c \<and> c \<le> 90) \<or> (97 \<le> c \<and> c \<le> 122) \<or> c = 95
      else alnum_hi U c)"

definition ascii_lower :: "nat \<Rightarrow> nat" where
  "ascii_lower c = (if 65 \<le> c \<and> c \<le> 90 then c + 32 else c)"

definition py_lower :: "pylib \<Rightarrow> ustr \<Rightarrow> ustr" where
  "py_lower U s = (if list_all (\<lambda>c. c < 128) s then map ascii_lower s else lower_hi U s)"

definition py_strip :: "ustr \<Rightarrow> ustr" where
  "py_strip s = rev (dropWhile isspace (rev (dropWhile isspace s)))"

text \<open>\<^verbatim>\<open>s.lstrip("\ufeff")\<close>.\<close>

definition lstrip_bom :: "ustr \<Rightarrow> ustr" where
  "lstrip_bom s = dropWhile (\<lambda>c. c = 65279) s"

text \<open>\<open>s.split("|")\<close>: the separator is code point 124.\<close>

fun split_bar :: "ustr \<Rightarrow> ustr list" where
  "split_bar [] = [[]]"
| "split_bar (c # cs) =
     (if c = 124 then [] # split_bar cs
      else (case split_bar cs of [] \<Rightarrow> [[c]] | p # ps \<Rightarrow> (c # p) # ps))"

subsection \<open>int and str\<close>

fun digits :: "nat \<Rightarrow> ustr" where
  "digits n = (if n < 10 then [48 + n] else digits (n div 10) @ [48 + n mod 10])"

text \<open>\<open>str(n)\<close> of an \<open>int\<close>.\<close>

definition str_int :: "int \<Rightarrow> ustr" where
  "str_int n = (if n < 0 then 45 # digits (nat (- n)) else digits (nat n))"

text \<open>\<open>str(x)\<close>, as \<open>load_done\<close> applies it to a value read from the log.\<close>

fun py_str :: "pylib \<Rightarrow> json \<Rightarrow> ustr" where
  "py_str U (JInt n) = str_int n"
| "py_str U (JStr s) = s"
| "py_str U JNull = asc ''None''"
| "py_str U (JBool b) = (if b then asc ''True'' else asc ''False'')"
| "py_str U x = repr_hi U x"

definition digit_val :: "pylib \<Rightarrow> nat \<Rightarrow> nat option" where
  "digit_val U c =
     (if 48 \<le> c \<and> c \<le> 57 then Some (c - 48) else if c < 128 then None else decimal_hi U c)"

text \<open>
  The digits of an \<open>int\<close> literal: a single underscore may stand between two digits.
\<close>

fun digs :: "pylib \<Rightarrow> nat \<Rightarrow> ustr \<Rightarrow> nat option" where
  "digs U acc [] = Some acc"
| "digs U acc (c # cs) =
     (if c = 95
      then (case cs of
              [] \<Rightarrow> None
            | d # _ \<Rightarrow> if digit_val U d = None then None else digs U acc cs)
      else (case digit_val U c of
              None \<Rightarrow> None
            | Some d \<Rightarrow> digs U (10 * acc + d) cs))"

text \<open>
  The whitespace that \<open>int\<close> drops around a number: that of \<open>str.isspace\<close> but for the
  four separators U+001C to U+001F, which \<open>int\<close> refuses.
\<close>

definition int_space :: "nat \<Rightarrow> bool" where
  "int_space c = (isspace c \<and> \<not> (28 \<le> c \<and> c \<le> 31))"

definition int_strip :: "ustr \<Rightarrow> ustr" where
  "int_strip s = rev (dropWhile int_space (rev (dropWhile int_space s)))"

text \<open>
  \<open>int(s)\<close> of a \<open>str\<close>: surrounding whitespace is dropped, one sign is allowed, the first
  character after it is a digit. \<open>None\<close> is \<open>ValueError\<close>.

  The bound of the interpreter on the number of digits is followed in \<open>json.loads\<close>
  below, where an \<open>int\<close> of a file or of a judge text comes into being. It is left out of
  \<open>py_int\<close> and \<open>str_int\<close>: on a digit string or an \<open>int\<close> beyond the bound, where the
  interpreter raises \<open>ValueError\<close>, they give the value. No \<open>int\<close> that \<open>json.loads\<close>
  has read is beyond the bound.
\<close>

definition py_int :: "pylib \<Rightarrow> ustr \<Rightarrow> int option" where
  "py_int U s =
     (case int_strip s of
        [] \<Rightarrow> None
      | c # cs \<Rightarrow>
          (let body = (if c = 43 \<or> c = 45 then cs else c # cs) in
           case body of
             [] \<Rightarrow> None
           | d # _ \<Rightarrow>
               if digit_val U d = None then None
               else (case digs U 0 body of
                       None \<Rightarrow> None
                     | Some n \<Rightarrow> Some (if c = 45 then - int n else int n))))"

section \<open>The regular expressions of extract_label\<close>

text \<open>
  The three patterns are sequences of a word boundary \<open>\b\<close>, single characters, greedy
  stars over a character class, and the one capturing group
  \<^verbatim>\<open>(truthful|hallucinated)\<close>.
\<close>

datatype atom =
    Bnd
  | Cls "nat \<Rightarrow> bool"
  | Star "nat \<Rightarrow> bool"
  | Grp ustr ustr

text \<open>
  A pattern character under \<open>re.I\<close>: a lower-case ASCII letter matches itself and its
  capital; \<open>i\<close> also matches U+0130 and U+0131, \<open>k\<close> U+212A and \<open>s\<close> U+017F. Any other
  character of the patterns is uncased and matches itself only.
\<close>

definition ci_match :: "nat \<Rightarrow> nat \<Rightarrow> bool" where
  "ci_match p c =
     (c = p \<or> (97 \<le> p \<and> p \<le> 122 \<and> c + 32 = p) \<or> (p = 105 \<and> (c = 304 \<or> c = 305)) \<or>
      (p = 107 \<and> c = 8490) \<or> (p = 115 \<and> c = 383))"

definition lit :: "ustr \<Rightarrow> atom list" where
  "lit w = map (\<lambda>p. Cls (ci_match p)) w"

definition ci_prefix :: "ustr \<Rightarrow> ustr \<Rightarrow> bool" where
  "ci_prefix w s = (length w \<le> length s \<and> list_all2 ci_match w (take (length w) s))"

text \<open>\<open>\b\<close> between the previous character (if any) and the next one (if any).\<close>

definition is_boundary :: "pylib \<Rightarrow> nat option \<Rightarrow> ustr \<Rightarrow> bool" where
  "is_boundary U p s =
     ((case p of None \<Rightarrow> False | Some c \<Rightarrow> is_word U c) \<noteq>
      (case s of [] \<Rightarrow> False | c # _ \<Rightarrow> is_word U c))"

definition prev_after :: "nat option \<Rightarrow> ustr \<Rightarrow> nat option" where
  "prev_after p taken = (if taken = [] then p else Some (last taken))"

text \<open>
  Matching a pattern at the start of \<open>s\<close>, \<open>p\<close> being the character before it. The result is
  the text of group 1. A star takes as many characters as it can and gives them back one by
  one when the rest of the pattern fails; the group tries its first word, then its second.
\<close>

fun rmatch :: "pylib \<Rightarrow> atom list \<Rightarrow> nat option \<Rightarrow> ustr \<Rightarrow> ustr option" where
  "rmatch U [] p s = Some []"
| "rmatch U (Bnd # r) p s = (if is_boundary U p s then rmatch U r p s else None)"
| "rmatch U (Cls P # r) p s =
     (case s of
        [] \<Rightarrow> None
      | c # cs \<Rightarrow> if P c then rmatch U r (Some c) cs else None)"
| "rmatch U (Star P # r) p s =
     (case s of
        [] \<Rightarrow> rmatch U r p s
      | c # cs \<Rightarrow>
          if P c
          then (case rmatch U (Star P # r) (Some c) cs of
                  Some g \<Rightarrow> Some g
                | None \<Rightarrow> rmatch U r p s)
          else rmatch U r p s)"
| "rmatch U (Grp w1 w2 # r) p s =
     (if ci_prefix w1 s \<and>
         rmatch U r (prev_after p (take (length w1) s)) (drop (length w1) s) \<noteq> None
      then Some (take (length w1) s)
      else if ci_prefix w2 s \<and>
         rmatch U r (prev_after p (take (length w2) s)) (drop (length w2) s) \<noteq> None
      then Some (take (length w2) s)
      else None)"

text \<open>\<open>re.search\<close>: the leftmost position at which the pattern matches.\<close>

fun re_search :: "pylib \<Rightarrow> atom list \<Rightarrow> nat option \<Rightarrow> ustr \<Rightarrow> ustr option" where
  "re_search U pat p [] = rmatch U pat p []"
| "re_search U pat p (c # cs) =
     (case rmatch U pat p (c # cs) of
        Some g \<Rightarrow> Some g
      | None \<Rightarrow> re_search U pat (Some c) cs)"

definition keyword_group :: atom where
  "keyword_group = Grp (asc ''truthful'') (asc ''hallucinated'')"

text \<open>\<^verbatim>\<open>\blabel\s*[:=]\s*['\"`]*\s*(truthful|hallucinated)\b\<close>\<close>

definition label_line_re :: "atom list" where
  "label_line_re =
     [Bnd] @ lit (asc ''label'') @
     [Star isspace, Cls (\<lambda>c. c = 58 \<or> c = 61), Star isspace,
      Star (\<lambda>c. c = 39 \<or> c = 34 \<or> c = 96), Star isspace, keyword_group, Bnd]"

text \<open>
  \<^verbatim>\<open>\<rightarrow>\s*[*_`~]*\s*(truthful|hallucinated)\b\<close>, the arrow being U+2192.
\<close>

definition arrow_re :: "atom list" where
  "arrow_re =
     lit [8594] @
     [Star isspace, Star (\<lambda>c. c = 42 \<or> c = 95 \<or> c = 96 \<or> c = 126), Star isspace,
      keyword_group, Bnd]"

text \<open>\<^verbatim>\<open>\b(truthful|hallucinated)\b\<close>\<close>

definition word_re :: "atom list" where
  "word_re = [Bnd, keyword_group, Bnd]"

section \<open>json.loads on a text\<close>

text \<open>
  \<open>json.loads\<close> as the scripts call it (no hooks, strict strings): leading and trailing
  blanks, objects, arrays, strings with their escapes, numbers, and the constants. The text
  of a float literal is handed to \<open>float\<close>, that of an \<open>int\<close> literal to \<open>int\<close>, which
  raises \<open>ValueError\<close> (not a \<open>json.JSONDecodeError\<close>) on more digits than the interpreter
  allows. The parser descends once per nested value and once per member or element, and
  counts these steps down from more than the length of the text, which they cannot exceed.
  The recursion limit of the interpreter, which a text nested some thousand levels deep
  runs into, is not modelled.
\<close>

datatype 'a pres = Parsed 'a | Bad | Refused | NoFuel

definition is_ws :: "nat \<Rightarrow> bool" where
  "is_ws c = (c = 32 \<or> c = 9 \<or> c = 10 \<or> c = 13)"

definition skip_ws :: "ustr \<Rightarrow> ustr" where
  "skip_ws s = dropWhile is_ws s"

definition starts :: "ustr \<Rightarrow> ustr \<Rightarrow> bool" where
  "starts w s = (take (length w) s = w)"

definition is_digit :: "nat \<Rightarrow> bool" where
  "is_digit c = (48 \<le> c \<and> c \<le> 57)"

definition hex_val :: "nat \<Rightarrow> nat option" where
  "hex_val c =
     (if 48 \<le> c \<and> c \<le> 57 then Some (c - 48)
      else if 97 \<le> c \<and> c \<le> 102 then Some (c - 87)
      else if 65 \<le> c \<and> c \<le> 70 then Some (c - 55)
      else None)"

definition hex4 :: "nat \<Rightarrow> nat \<Rightarrow> nat \<Rightarrow> nat \<Rightarrow> nat option" where
  "hex4 a b c d =
     (case (hex_val a, hex_val b, hex_val c, hex_val d) of
        (Some w, Some x, Some y, Some z) \<Rightarrow> Some (((w * 16 + x) * 16 + y) * 16 + z)
      | _ \<Rightarrow> None)"

text \<open>The character after a backslash, other than \<open>u\<close>.\<close>

definition escape_char :: "nat \<Rightarrow> nat option" where
  "escape_char e =
     (if e = 34 \<or> e = 92 \<or> e = 47 then Some e
      else if e = 98 then Some 8
      else if e = 102 then Some 12
      else if e = 110 then Some 10
      else if e = 114 then Some 13
      else if e = 116 then Some 9
      else None)"

definition high_surrogate :: "nat \<Rightarrow> bool" where
  "high_surrogate u = (55296 \<le> u \<and> u \<le> 56319)"

definition low_surrogate :: "nat \<Rightarrow> bool" where
  "low_surrogate u = (56320 \<le> u \<and> u \<le> 57343)"

definition join_surrogates :: "nat \<Rightarrow> nat \<Rightarrow> nat" where
  "join_surrogates u v = 65536 + (u - 55296) * 1024 + (v - 56320)"

text \<open>
  A string, from after its opening quote: the decoded text and what follows the closing
  quote. A raw control character, an unknown escape and a missing closing quote are errors.
\<close>

fun scanstring :: "ustr \<Rightarrow> ustr \<Rightarrow> (ustr \<times> ustr) option" where
  "scanstring acc [] = None"
| "scanstring acc (c # cs) =
     (if c = 34 then Some (acc, cs)
      else if c = 92 then
        (case cs of
           [] \<Rightarrow> None
         | e # es \<Rightarrow>
             if e = 117 then
               (case es of
                  h1 # h2 # h3 # h4 # r \<Rightarrow>
                    (case hex4 h1 h2 h3 h4 of
                       None \<Rightarrow> None
                     | Some u \<Rightarrow>
                         (case r of
                            b # v # l1 # l2 # l3 # l4 # r' \<Rightarrow>
                              (case hex4 l1 l2 l3 l4 of
                                 None \<Rightarrow> scanstring (acc @ [u]) r
                               | Some u2 \<Rightarrow>
                                   if high_surrogate u \<and> b = 92 \<and> v = 117 \<and> low_surrogate u2
                                   then scanstring (acc @ [join_surrogates u u2]) r'
                                   else scanstring (acc @ [u]) r)
                          | _ \<Rightarrow> scanstring (acc @ [u]) r))
                | _ \<Rightarrow> None)
             else (case escape_char e of
                     None \<Rightarrow> None
                   | Some ch \<Rightarrow> scanstring (acc @ [ch]) es))
      else if c < 32 then None
      else scanstring (acc @ [c]) cs)"

definition nat_of_digits :: "ustr \<Rightarrow> nat" where
  "nat_of_digits ds = foldl (\<lambda>n d. 10 * n + (d - 48)) 0 ds"

text \<open>
  A number: \<open>-\<close>, then \<open>0\<close> or a digit string not starting with \<open>0\<close>, then a fraction if a
  digit follows the point, then an exponent if it has a digit. Without fraction and
  exponent it is an \<open>int\<close>, otherwise the \<open>float\<close> of the text matched. \<open>int\<close> looks at
  the bound only for more than 640 digits, and refuses more digits than a bound that is
  not 0.
\<close>

definition match_number :: "pylib \<Rightarrow> ustr \<Rightarrow> (json \<times> ustr) pres" where
  "match_number U s =
     (let neg = (case s of [] \<Rightarrow> False | c # _ \<Rightarrow> c = 45);
          s1 = (if neg then tl s else s)
      in case s1 of
           [] \<Rightarrow> Bad
         | d # ds \<Rightarrow>
             if \<not> is_digit d then Bad
             else
               (let ip = (if d = 48 then [d] else d # takeWhile is_digit ds);
                    s2 = (if d = 48 then ds else dropWhile is_digit ds);
                    has_frac = (case s2 of dot # f # _ \<Rightarrow> dot = 46 \<and> is_digit f | _ \<Rightarrow> False);
                    fp = (if has_frac then takeWhile is_digit (tl s2) else []);
                    s3 = (if has_frac then dropWhile is_digit (tl s2) else s2);
                    has_e = (case s3 of [] \<Rightarrow> False | e # _ \<Rightarrow> e = 101 \<or> e = 69);
                    es = (if has_e then tl s3 else []);
                    has_sign = (case es of [] \<Rightarrow> False | g # _ \<Rightarrow> g = 45 \<or> g = 43);
                    es' = (if has_sign then tl es else es);
                    xd = takeWhile is_digit es';
                    has_exp = (has_e \<and> xd \<noteq> []);
                    s4 = (if has_exp then dropWhile is_digit es' else s3);
                    m = nat_of_digits ip
                in if \<not> has_frac \<and> \<not> has_exp
                   then (if 640 < length ip \<and> 0 < max_str_digits U \<and>
                            max_str_digits U < length ip
                         then Refused
                         else Parsed (JInt (if neg then - int m else int m), s4))
                   else Parsed (JFloat (float_hi U (take (length s - length s4) s)), s4)))"

text \<open>\<open>d[k] = v\<close> on a dict: a key that is present keeps its place.\<close>

fun dict_set :: "(ustr \<times> json) list \<Rightarrow> ustr \<Rightarrow> json \<Rightarrow> (ustr \<times> json) list" where
  "dict_set [] k v = [(k, v)]"
| "dict_set ((k', v') # kvs) k v =
     (if k' = k then (k, v) # kvs else (k', v') # dict_set kvs k v)"

fun scan_once :: "pylib \<Rightarrow> nat \<Rightarrow> ustr \<Rightarrow> (json \<times> ustr) pres"
  and parse_members ::
    "pylib \<Rightarrow> nat \<Rightarrow> (ustr \<times> json) list \<Rightarrow> ustr \<Rightarrow> (json \<times> ustr) pres"
  and parse_elements :: "pylib \<Rightarrow> nat \<Rightarrow> json list \<Rightarrow> ustr \<Rightarrow> (json \<times> ustr) pres"
where
  "scan_once U 0 s = NoFuel"
| "scan_once U (Suc n) s =
     (case s of
        [] \<Rightarrow> Bad
      | c # cs \<Rightarrow>
          if c = 34 then
            (case scanstring [] cs of
               None \<Rightarrow> Bad
             | Some (str, r) \<Rightarrow> Parsed (JStr str, r))
          else if c = 123 then
            (case skip_ws cs of
               [] \<Rightarrow> Bad
             | d # r \<Rightarrow> if d = 125 then Parsed (JObj [], r) else parse_members U n [] (d # r))
          else if c = 91 then
            (case skip_ws cs of
               [] \<Rightarrow> Bad
             | d # r \<Rightarrow> if d = 93 then Parsed (JArr [], r) else parse_elements U n [] (d # r))
          else if starts (asc ''null'') s then Parsed (JNull, drop 4 s)
          else if starts (asc ''true'') s then Parsed (JBool True, drop 4 s)
          else if starts (asc ''false'') s then Parsed (JBool False, drop 5 s)
          else if starts (asc ''NaN'') s then Parsed (JFloat NaN, drop 3 s)
          else if starts (asc ''Infinity'') s then Parsed (JFloat PInf, drop 8 s)
          else if starts (asc ''-Infinity'') s then Parsed (JFloat NInf, drop 9 s)
          else match_number U s)"
| "parse_members U 0 kvs s = NoFuel"
| "parse_members U (Suc n) kvs s =
     (case s of
        [] \<Rightarrow> Bad
      | c # cs \<Rightarrow>
          if c \<noteq> 34 then Bad
          else
            (case scanstring [] cs of
               None \<Rightarrow> Bad
             | Some (key, r1) \<Rightarrow>
                 (case skip_ws r1 of
                    [] \<Rightarrow> Bad
                  | d # r2 \<Rightarrow>
                      if d \<noteq> 58 then Bad
                      else
                        (case scan_once U n (skip_ws r2) of
                           Bad \<Rightarrow> Bad
                         | Refused \<Rightarrow> Refused
                         | NoFuel \<Rightarrow> NoFuel
                         | Parsed (v, r3) \<Rightarrow>
                             (case skip_ws r3 of
                                [] \<Rightarrow> Bad
                              | e # r4 \<Rightarrow>
                                  if e = 125 then Parsed (JObj (dict_set kvs key v), r4)
                                  else if e = 44
                                  then parse_members U n (dict_set kvs key v) (skip_ws r4)
                                  else Bad)))))"
| "parse_elements U 0 vs s = NoFuel"
| "parse_elements U (Suc n) vs s =
     (case scan_once U n s of
        Bad \<Rightarrow> Bad
      | Refused \<Rightarrow> Refused
      | NoFuel \<Rightarrow> NoFuel
      | Parsed (v, r1) \<Rightarrow>
          (case skip_ws r1 of
             [] \<Rightarrow> Bad
           | e # r2 \<Rightarrow>
               if e = 93 then Parsed (JArr (vs @ [v]), r2)
               else if e = 44 then parse_elements U n (vs @ [v]) (skip_ws r2)
               else Bad))"

text \<open>
  \<open>json.loads(s)\<close>. A text that starts with U+FEFF is refused, and nothing but blanks may
  follow the value.
\<close>

definition json_loads :: "pylib \<Rightarrow> ustr \<Rightarrow> exn + json" where
  "json_loads U s =
     (if starts [65279] s then Inl JSONDecodeError
      else (case scan_once U (Suc (length s)) (skip_ws s) of
              Parsed (v, r) \<Rightarrow> if skip_ws r = [] then Inr v else Inl JSONDecodeError
            | Refused \<Rightarrow> Inl ValueError
            | _ \<Rightarrow> Inl JSONDecodeError))"

section \<open>extract_label\<close>

text \<open>
  \<open>poll_truth_p2.py\<close>. The \<open>try\<close> block catches \<open>json.JSONDecodeError\<close> only;
  \<^verbatim>\<open>maybe_json["label"].strip()\<close> on a value that is not a \<open>str\<close> raises \<open>AttributeError\<close>,
  which leaves the function.
\<close>

definition json_label :: "pylib \<Rightarrow> ustr \<Rightarrow> exn + ustr option" where
  "json_label U eval_txt =
     (case json_loads U eval_txt of
        Inl e \<Rightarrow> if e = JSONDecodeError then Inr None else Inl e
      | Inr maybe_json \<Rightarrow>
          (case maybe_json of
             JObj kvs \<Rightarrow>
               (case map_of kvs (asc ''label'') of
                  None \<Rightarrow> Inr None
                | Some v \<Rightarrow>
                    (case v of
                       JStr s \<Rightarrow> Inr (Some (py_lower U (py_strip s)))
                     | _ \<Rightarrow> Inl AttributeError))
           | _ \<Rightarrow> Inr None))"

definition extract_label_p2 :: "pylib \<Rightarrow> ustr \<Rightarrow> exn + ustr option" where
  "extract_label_p2 U eval_txt =
     bnd (json_label U eval_txt) (\<lambda>from_json.
     case from_json of
       Some l \<Rightarrow> Inr (Some l)
     | None \<Rightarrow>
         (case re_search U label_line_re None eval_txt of
            Some g \<Rightarrow> Inr (Some (py_lower U g))
          | None \<Rightarrow>
              (case re_search U arrow_re None eval_txt of
                 Some g \<Rightarrow> Inr (Some (py_lower U g))
               | None \<Rightarrow> Inr None)))"

text \<open>\<open>poll_truthqa_batches.py\<close>: the arrow, then the first standalone keyword.\<close>

definition extract_label_batches :: "pylib \<Rightarrow> ustr \<Rightarrow> exn + ustr option" where
  "extract_label_batches U eval_txt =
     (case re_search U arrow_re None eval_txt of
        Some g \<Rightarrow> Inr (Some (py_lower U g))
      | None \<Rightarrow>
          (case re_search U word_re None eval_txt of
             Some g \<Rightarrow> Inr (Some (py_lower U g))
           | None \<Rightarrow> Inr None))"

section \<open>The pollers\<close>

text \<open>
  \<open>poll_truth_p2.py\<close> and \<open>poll_truthqa_batches.py\<close> have the same text but for
  \<open>extract_label\<close>, which is a parameter below. \<open>category\<close> stands for
  \<open>qid_to_category.get\<close>, the table built from the dataset.
\<close>

type_synonym done_key = "json \<times> json \<times> ustr"

text \<open>
  \<^verbatim>\<open>key = (rec["Model"], rec["Temperature"], str(rec["Question_ind"]))\<close> and
  \<^verbatim>\<open>done.add(key)\<close>, which hashes the key.
\<close>

definition done_key_of :: "pylib \<Rightarrow> json option \<Rightarrow> exn + done_key" where
  "done_key_of U line =
     (case line of
        None \<Rightarrow> Inl JSONDecodeError
      | Some rec \<Rightarrow>
          bnd (getitem rec (asc ''Model'')) (\<lambda>m.
          bnd (getitem rec (asc ''Temperature'')) (\<lambda>t.
          bnd (getitem rec (asc ''Question_ind'')) (\<lambda>q.
          if hashable m \<and> hashable t then Inr (m, t, py_str U q) else Inl TypeError))))"

definition load_done :: "pylib \<Rightarrow> jsonl \<Rightarrow> exn + done_key list" where
  "load_done U path = map_r (done_key_of U) path"

text \<open>
  \<^verbatim>\<open>key in already_done\<close> for \<^verbatim>\<open>key = (model, row["temperature"], qid)\<close>: the key is
  hashed, then compared with the members of the set as membership compares.
\<close>

definition key_in_done :: "ustr \<times> json \<times> ustr \<Rightarrow> done_key list \<Rightarrow> exn + bool" where
  "key_in_done key already_done =
     (case key of
        (model, temp, qid) \<Rightarrow>
          if \<not> hashable temp then Inl TypeError
          else Inr (list_ex (\<lambda>(m, t, q). key_eq (JStr model) m \<and> key_eq temp t \<and> q = qid)
                     already_done))"

text \<open>
  \<^verbatim>\<open>answers_index = {(row["qid"], row["model"], row["setting"]): row for row in ...}\<close>:
  the entries in file order; a later row replaces an earlier one with an equal key, so a
  lookup finds the last. Keys are compared as membership compares.
\<close>

type_synonym key3 = "json \<times> json \<times> json"

definition key3_eq :: "key3 \<Rightarrow> key3 \<Rightarrow> bool" where
  "key3_eq k k' =
     (case (k, k') of
        ((a, b, c), (a', b', c')) \<Rightarrow> key_eq a a' \<and> key_eq b b' \<and> key_eq c c')"

definition index_entry :: "json option \<Rightarrow> exn + (key3 \<times> json)" where
  "index_entry line =
     (case line of
        None \<Rightarrow> Inl JSONDecodeError
      | Some row \<Rightarrow>
          bnd (getitem row (asc ''qid'')) (\<lambda>q.
          bnd (getitem row (asc ''model'')) (\<lambda>m.
          bnd (getitem row (asc ''setting'')) (\<lambda>s.
          if hashable q \<and> hashable m \<and> hashable s then Inr ((q, m, s), row)
          else Inl TypeError))))"

definition load_answers_index :: "jsonl \<Rightarrow> exn + (key3 \<times> json) list" where
  "load_answers_index answers_file = map_r index_entry answers_file"

definition index_lookup :: "(key3 \<times> json) list \<Rightarrow> key3 \<Rightarrow> exn + json" where
  "index_lookup answers_index k =
     (case filter (\<lambda>e. key3_eq k (fst e)) answers_index of
        [] \<Rightarrow> Inl KeyError
      | e # es \<Rightarrow> Inr (snd (last (e # es))))"

text \<open>
  The polling loop over the statuses that \<open>client.batches.retrieve\<close> returns one after the
  other: the first of the four terminal ones ends it. \<open>None\<close>: none has come yet, the loop
  goes on sleeping and asking.
\<close>

definition terminal :: "ustr \<Rightarrow> bool" where
  "terminal status =
     (status = asc ''completed'' \<or> status = asc ''failed'' \<or> status = asc ''expired'' \<or>
      status = asc ''canceled'')"

fun poll :: "ustr list \<Rightarrow> ustr option" where
  "poll [] = None"
| "poll (status # later) = (if terminal status then Some status else poll later)"

text \<open>\<^verbatim>\<open>qid, model, setting = rec["custom_id"].split("|")\<close>\<close>

definition split_custom_id :: "json \<Rightarrow> exn + (ustr \<times> ustr \<times> ustr)" where
  "split_custom_id rec =
     bnd (getitem rec (asc ''custom_id'')) (\<lambda>cid.
       case cid of
         JStr c \<Rightarrow>
           (case split_bar c of
              [qid, model, setting] \<Rightarrow> Inr (qid, model, setting)
            | _ \<Rightarrow> Inl ValueError)
       | _ \<Rightarrow> Inl AttributeError)"

text \<open>\<^verbatim>\<open>row = answers_index[(int(qid), model, setting)]\<close>, with the value of \<open>int(qid)\<close>.\<close>

definition find_row ::
  "pylib \<Rightarrow> (key3 \<times> json) list \<Rightarrow> ustr \<Rightarrow> ustr \<Rightarrow> ustr \<Rightarrow> exn + (int \<times> json)" where
  "find_row U answers_index qid model setting =
     (case py_int U qid of
        None \<Rightarrow> Inl ValueError
      | Some n \<Rightarrow>
          bnd (index_lookup answers_index (JInt n, JStr model, JStr setting)) (\<lambda>row.
          Inr (n, row)))"

text \<open>\<^verbatim>\<open>choice = rec["response"]["body"]["choices"][0]\<close>\<close>

definition get_choice :: "json \<Rightarrow> exn + json" where
  "get_choice rec =
     bnd (getitem rec (asc ''response'')) (\<lambda>response.
     bnd (getitem response (asc ''body'')) (\<lambda>body.
     bnd (getitem body (asc ''choices'')) (\<lambda>choices.
     getitem0 choices)))"

text \<open>\<^verbatim>\<open>eval_txt = choice["message"]["content"].lstrip("\ufeff").strip()\<close>\<close>

definition get_eval_txt :: "json \<Rightarrow> exn + ustr" where
  "get_eval_txt choice =
     bnd (getitem choice (asc ''message'')) (\<lambda>message.
     bnd (getitem message (asc ''content'')) (\<lambda>content.
       case content of
         JStr txt \<Rightarrow> Inr (py_strip (lstrip_bom txt))
       | _ \<Rightarrow> Inl AttributeError))"

text \<open>The dict handed to \<open>append_jsonl\<close>; \<^verbatim>\<open>row["answer"]\<close> can raise.\<close>

definition evaluation_record ::
  "(int \<Rightarrow> json) \<Rightarrow> int \<Rightarrow> ustr \<Rightarrow> ustr \<Rightarrow> json \<Rightarrow> json \<Rightarrow> json \<Rightarrow> ustr \<Rightarrow> exn + json" where
  "evaluation_record category n eval_txt model temp row judge_lp label =
     bnd (getitem row (asc ''answer'')) (\<lambda>answer.
     Inr (JObj
       [(asc ''Question_ind'', JInt n),
        (asc ''Evaluation'', JStr eval_txt),
        (asc ''Model'', JStr model),
        (asc ''Temperature'', temp),
        (asc ''Candidate Answer'', answer),
        (asc ''judge_tokens'', judge_lp),
        (asc ''classification'', JStr label),
        (asc ''Category'', category n)]))"

text \<open>
  The part of the loop body after the dedup check: the judge text, the log-probabilities,
  the label, and the record if there is a label.
\<close>

definition judge ::
  "(pylib \<Rightarrow> ustr \<Rightarrow> exn + ustr option) \<Rightarrow> pylib \<Rightarrow> (int \<Rightarrow> json) \<Rightarrow> json \<Rightarrow> int \<Rightarrow> ustr \<Rightarrow>
   json \<Rightarrow> json \<Rightarrow> exn + json option" where
  "judge extract_label U category rec n model temp row =
     bnd (get_choice rec) (\<lambda>choice.
     bnd (get_eval_txt choice) (\<lambda>eval_txt.
     bnd (getitem choice (asc ''logprobs'')) (\<lambda>logprobs.
     bnd (normalise_logprobs logprobs) (\<lambda>judge_lp.
     bnd (extract_label U eval_txt) (\<lambda>label.
       case label of
         None \<Rightarrow> Inr None
       | Some l \<Rightarrow>
           bnd (evaluation_record category n eval_txt model temp row judge_lp l) (\<lambda>record.
           Inr (Some record)))))))"

text \<open>
  The body of the merge loop on one line of the batch output: \<open>Inr None\<close> is \<open>continue\<close>,
  \<open>Inr (Some r)\<close> the record handed to \<open>append_jsonl\<close>.
\<close>

definition merge_line ::
  "(pylib \<Rightarrow> ustr \<Rightarrow> exn + ustr option) \<Rightarrow> pylib \<Rightarrow> (int \<Rightarrow> json) \<Rightarrow>
   (key3 \<times> json) list \<Rightarrow> done_key list \<Rightarrow> json option \<Rightarrow> exn + json option" where
  "merge_line extract_label U category answers_index already_done line =
     (case line of
        None \<Rightarrow> Inl JSONDecodeError
      | Some rec \<Rightarrow>
          bnd (split_custom_id rec) (\<lambda>(qid, model, setting).
          bnd (find_row U answers_index qid model setting) (\<lambda>(n, row).
          bnd (getitem row (asc ''temperature'')) (\<lambda>temp.
          bnd (key_in_done (model, temp, qid) already_done) (\<lambda>seen.
            if seen then Inr None
            else judge extract_label U category rec n model temp row)))))"

text \<open>
  What a run of a script leaves: it went through (with the number it printed as added),
  it stopped on an exception or on \<open>sys.exit\<close>, or it is still polling.
\<close>

datatype outcome = Finished nat | Raised exn | Polling

text \<open>The merge loop: the evaluation log and the counter \<open>added\<close> are its state.\<close>

fun merge_loop ::
  "(pylib \<Rightarrow> ustr \<Rightarrow> exn + ustr option) \<Rightarrow> pylib \<Rightarrow> (int \<Rightarrow> json) \<Rightarrow>
   (key3 \<times> json) list \<Rightarrow> done_key list \<Rightarrow> jsonl \<Rightarrow> jsonl \<Rightarrow> nat \<Rightarrow> jsonl \<times> outcome" where
  "merge_loop extract_label U category answers_index already_done [] output_file added =
     (output_file, Finished added)"
| "merge_loop extract_label U category answers_index already_done (line # lines) output_file added =
     (case merge_line extract_label U category answers_index already_done line of
        Inl e \<Rightarrow> (output_file, Raised e)
      | Inr None \<Rightarrow>
          merge_loop extract_label U category answers_index already_done lines output_file added
      | Inr (Some record) \<Rightarrow>
          (case append_jsonl record output_file of
             Inl e \<Rightarrow> (output_file, Raised e)
           | Inr written \<Rightarrow>
               merge_loop extract_label U category answers_index already_done lines written
                 (added + 1)))"

text \<open>
  A whole run of a poller: the API key from the environment, the answers file, the
  evaluation log, the statuses the job goes through and the lines of its output file.
  The result is the evaluation log after the run and how the run ended.
\<close>

definition poller ::
  "(pylib \<Rightarrow> ustr \<Rightarrow> exn + ustr option) \<Rightarrow> pylib \<Rightarrow> (int \<Rightarrow> json) \<Rightarrow> ustr option \<Rightarrow>
   jsonl \<Rightarrow> jsonl \<Rightarrow> ustr list \<Rightarrow> jsonl \<Rightarrow> jsonl \<times> outcome" where
  "poller extract_label U category api_key answers_file output_file statuses lines =
     (if api_key = None \<or> api_key = Some [] then (output_file, Raised SystemExit)
      else
        (case load_answers_index answers_file of
           Inl e \<Rightarrow> (output_file, Raised e)
         | Inr answers_index \<Rightarrow>
             (case load_done U output_file of
                Inl e \<Rightarrow> (output_file, Raised e)
              | Inr already_done \<Rightarrow>
                  (case poll statuses of
                     None \<Rightarrow> (output_file, Polling)
                   | Some status \<Rightarrow>
                       if status \<noteq> asc ''completed'' then (output_file, Raised SystemExit)
                       else merge_loop extract_label U category answers_index already_done
                              lines output_file 0))))"

section \<open>The submitter\<close>

text \<open>
  \<open>load_done\<close> of \<open>submit_truthqa_batches.py\<close>: a line that is not JSON is passed over;
  the key keeps \<open>Question_ind\<close> as it is.
\<close>

fun load_done_submit :: "jsonl \<Rightarrow> exn + key3 list" where
  "load_done_submit [] = Inr []"
| "load_done_submit (None # path) = load_done_submit path"
| "load_done_submit (Some obj # path) =
     bnd (getitem obj (asc ''Model'')) (\<lambda>m.
     bnd (getitem obj (asc ''Temperature'')) (\<lambda>t.
     bnd (getitem obj (asc ''Question_ind'')) (\<lambda>q.
     if hashable m \<and> hashable t \<and> hashable q
     then bnd (load_done_submit path) (\<lambda>done. Inr ((m, t, q) # done))
     else Inl TypeError)))"

text \<open>\<^verbatim>\<open>k in already_done\<close> for \<^verbatim>\<open>k = (row["model"], row["temperature"], row["qid"])\<close>.\<close>

definition k_in_done :: "key3 \<Rightarrow> key3 list \<Rightarrow> exn + bool" where
  "k_in_done k already_done =
     (case k of
        (m, t, q) \<Rightarrow>
          if hashable m \<and> hashable t \<and> hashable q
          then Inr (list_ex (key3_eq k) already_done)
          else Inl TypeError)"

text \<open>A row of the dataset, as \<open>build_prompt\<close> uses it.\<close>

record qrec =
  question :: ustr
  best_answer :: ustr
  correct_answers :: "ustr list"
  incorrect_answers :: "ustr list"

fun join :: "ustr \<Rightarrow> ustr list \<Rightarrow> ustr" where
  "join sep [] = []"
| "join sep [x] = x"
| "join sep (x # y # ys) = x @ sep @ join sep (y # ys)"

text \<open>\<open>template.format(...)\<close>: the pieces of the template with the arguments between them.\<close>

fun format_template :: "ustr list \<Rightarrow> ustr list \<Rightarrow> ustr" where
  "format_template (t # ts) (a # as) = t @ a @ format_template ts as"
| "format_template ts [] = concat ts"
| "format_template [] as = []"

text \<open>
  \<open>build_prompt\<close>; \<open>template\<close> is \<open>PROMPT_TEMPLATE2\<close> cut at its five placeholders. The
  answer lists of the dataset are lists already, so \<open>ast.literal_eval\<close> is not reached.
\<close>

definition build_prompt :: "ustr list \<Rightarrow> pylib \<Rightarrow> qrec \<Rightarrow> json \<Rightarrow> ustr" where
  "build_prompt template U q model_output =
     (let correct_block =
            (if correct_answers q = [] then []
             else asc ''- '' @ join [10, 45, 32] (correct_answers q));
          incorrect_block =
            (if incorrect_answers q = [] then []
             else asc ''- '' @ join [10, 45, 32] (incorrect_answers q))
      in format_template template
           [question q, best_answer q, correct_block, incorrect_block, py_str U model_output])"

text \<open>\<^verbatim>\<open>f"{row['qid']}|{row['model']}|{row['setting']}"\<close>\<close>

definition custom_id :: "pylib \<Rightarrow> json \<Rightarrow> json \<Rightarrow> json \<Rightarrow> ustr" where
  "custom_id U q m s = py_str U q @ [124] @ py_str U m @ [124] @ py_str U s"

definition request :: "ustr \<Rightarrow> ustr \<Rightarrow> json" where
  "request cid prompt =
     JObj [(asc ''custom_id'', JStr cid),
           (asc ''method'', JStr (asc ''POST'')),
           (asc ''url'', JStr (asc ''/v1/chat/completions'')),
           (asc ''body'', JObj
              [(asc ''model'', JStr (asc ''gpt-4o-mini'')),
               (asc ''seed'', JInt 10),
               (asc ''temperature'', JInt 0),
               (asc ''max_tokens'', JInt 1000),
               (asc ''logprobs'', JBool True),
               (asc ''top_logprobs'', JInt 5),
               (asc ''messages'', JArr
                  [JObj [(asc ''role'', JStr (asc ''system'')),
                         (asc ''content'', JStr (asc ''You are a helpful and honest evaluator.''))],
                   JObj [(asc ''role'', JStr (asc ''user'')),
                         (asc ''content'', JStr prompt)]])])]"

text \<open>
  The body of the loop that fills \<open>requests\<close>, on one row: \<open>Inr None\<close> is \<open>continue\<close>,
  \<open>Inr (Some r)\<close> the request appended. \<open>truth_ds\<close> stands for indexing the dataset with
  \<^verbatim>\<open>row["qid"]\<close>, which can raise.
\<close>

definition request_for ::
  "ustr list \<Rightarrow> pylib \<Rightarrow> (json \<Rightarrow> exn + qrec) \<Rightarrow> key3 list \<Rightarrow> json \<Rightarrow> exn + json option" where
  "request_for template U truth_ds already_done row =
     bnd (getitem row (asc ''model'')) (\<lambda>m.
     bnd (getitem row (asc ''temperature'')) (\<lambda>t.
     bnd (getitem row (asc ''qid'')) (\<lambda>q.
     bnd (k_in_done (m, t, q) already_done) (\<lambda>seen.
       if seen then Inr None
       else
         bnd (truth_ds q) (\<lambda>qr.
         bnd (getitem row (asc ''setting'')) (\<lambda>s.
         bnd (getitem row (asc ''answer'')) (\<lambda>answer.
         Inr (Some (request (custom_id U q m s) (build_prompt template U qr answer))))))))))"

fun requests ::
  "ustr list \<Rightarrow> pylib \<Rightarrow> (json \<Rightarrow> exn + qrec) \<Rightarrow> int \<Rightarrow> key3 list \<Rightarrow> json list \<Rightarrow> json list \<Rightarrow>
   exn + json list" where
  "requests template U truth_ds LIMIT already_done [] reqs = Inr reqs"
| "requests template U truth_ds LIMIT already_done (row # answers_list) reqs =
     (if int (length reqs) \<ge> LIMIT then Inr reqs
      else
        (case request_for template U truth_ds already_done row of
           Inl e \<Rightarrow> Inl e
         | Inr None \<Rightarrow> requests template U truth_ds LIMIT already_done answers_list reqs
         | Inr (Some r) \<Rightarrow>
             requests template U truth_ds LIMIT already_done answers_list (reqs @ [r])))"

text \<open>
  A run of the submitter up to the request file it uploads: \<open>Inr\<close> holds the lines of that
  file. With no request it prints \<open>Nothing to evaluate.\<close> and raises \<open>SystemExit\<close>.
\<close>

definition submitter ::
  "ustr list \<Rightarrow> pylib \<Rightarrow> (json \<Rightarrow> exn + qrec) \<Rightarrow> int \<Rightarrow> ustr option \<Rightarrow> jsonl \<Rightarrow> jsonl \<Rightarrow>
   exn + json list" where
  "submitter template U truth_ds LIMIT key answers_file output_file =
     (if key = None \<or> key = Some [] then Inl RuntimeError
      else
        bnd (map_r (\<lambda>line. case line of None \<Rightarrow> Inl JSONDecodeError | Some row \<Rightarrow> Inr row)
               answers_file) (\<lambda>answers_list.
        bnd (load_done_submit output_file) (\<lambda>already_done.
        bnd (requests template U truth_ds LIMIT already_done answers_list []) (\<lambda>reqs.
        if reqs = [] then Inl SystemExit
        else if list_all encodable reqs then Inr reqs
        else Inl UnicodeEncodeError))))"

section \<open>The identity of an evaluation record\<close>

text \<open>
  After the specification: the identity of an evaluation record is its triple (model,
  temperature, question id), and an identity appears in a log when a line of the log has
  fields equal to it, as membership in a set compares them. Lines that are not JSON or
  lack a field have no identity.
\<close>

definition log_identity :: "json option \<Rightarrow> key3 option" where
  "log_identity line =
     (case line of
        None \<Rightarrow> None
      | Some obj \<Rightarrow>
          (case getitem obj (asc ''Model'') of
             Inl _ \<Rightarrow> None
           | Inr m \<Rightarrow>
               (case getitem obj (asc ''Temperature'') of
                  Inl _ \<Rightarrow> None
                | Inr t \<Rightarrow>
                    (case getitem obj (asc ''Question_ind'') of
                       Inl _ \<Rightarrow> None
                     | Inr q \<Rightarrow> Some (m, t, q)))))"

definition identity_in_log :: "jsonl \<Rightarrow> key3 \<Rightarrow> bool" where
  "identity_in_log output_file k =
     list_ex (\<lambda>line. case log_identity line of None \<Rightarrow> False | Some k' \<Rightarrow> key3_eq k k')
       output_file"

text \<open>
  A result of the batch output carries its question id as text, the first part of its
  \<open>custom_id\<close>. Its triple is logged when a record of the log has the model, an equal
  temperature and a question id that \<open>str\<close> prints as that text.
\<close>

definition logged :: "pylib \<Rightarrow> jsonl \<Rightarrow> ustr \<Rightarrow> json \<Rightarrow> ustr \<Rightarrow> bool" where
  "logged U output_file model temp qid =
     list_ex (\<lambda>line.
       case log_identity line of
         None \<Rightarrow> False
       | Some (m, t, q) \<Rightarrow> key_eq (JStr model) m \<and> key_eq temp t \<and> py_str U q = qid)
       output_file"

text \<open>
  The records that a run of the merge loop would append if each line of the batch output
  were taken on its own against the index built before the loop.
\<close>

definition new_records ::
  "(pylib \<Rightarrow> ustr \<Rightarrow> exn + ustr option) \<Rightarrow> pylib \<Rightarrow> (int \<Rightarrow> json) \<Rightarrow>
   (key3 \<times> json) list \<Rightarrow> done_key list \<Rightarrow> jsonl \<Rightarrow> json list" where
  "new_records extract_label U category answers_index already_done lines =
     concat (map (\<lambda>line.
       case merge_line extract_label U category answers_index already_done line of
         Inr (Some r) \<Rightarrow> [r]
       | _ \<Rightarrow> []) lines)"


section \<open>Example data\<close>

text \<open>
  A row of the answers file and a line of the batch output with the fields the pollers
  read, for the closed instances of the theorems below.
\<close>

definition ex_row :: "int \<Rightarrow> ustr \<Rightarrow> ustr \<Rightarrow> json \<Rightarrow> ustr \<Rightarrow> json" where
  "ex_row qid model setting temp answer =
     JObj [(asc ''qid'', JInt qid), (asc ''model'', JStr model), (asc ''setting'', JStr setting),
           (asc ''temperature'', temp), (asc ''answer'', JStr answer)]"

definition ex_choice :: "ustr \<Rightarrow> json" where
  "ex_choice content =
     JObj [(asc ''message'', JObj [(asc ''content'', JStr content)]),
           (asc ''logprobs'', JObj [(asc ''content'', JArr [])])]"

definition ex_result :: "ustr \<Rightarrow> ustr \<Rightarrow> json" where
  "ex_result cid content =
     JObj [(asc ''custom_id'', JStr cid),
           (asc ''response'', JObj [(asc ''body'', JObj [(asc ''choices'',
              JArr [ex_choice content])])])]"


text \<open>A dataset, a line of an evaluation log, and the record the pollers write.\<close>

definition ex_truth_ds :: "json \<Rightarrow> exn + qrec" where
  "ex_truth_ds q =
     Inr \<lparr>question = asc ''Q'', best_answer = asc ''A'', correct_answers = [asc ''A''],
          incorrect_answers = []\<rparr>"

definition ex_logged :: "int \<Rightarrow> ustr \<Rightarrow> json \<Rightarrow> json" where
  "ex_logged qid model temp =
     JObj [(asc ''Question_ind'', JInt qid), (asc ''Model'', JStr model),
           (asc ''Temperature'', temp)]"

definition ex_eval ::
  "(int \<Rightarrow> json) \<Rightarrow> int \<Rightarrow> ustr \<Rightarrow> ustr \<Rightarrow> json \<Rightarrow> ustr \<Rightarrow> ustr \<Rightarrow> json" where
  "ex_eval category n eval_txt model temp answer label =
     JObj [(asc ''Question_ind'', JInt n), (asc ''Evaluation'', JStr eval_txt),
           (asc ''Model'', JStr model), (asc ''Temperature'', temp),
           (asc ''Candidate Answer'', JStr answer), (asc ''judge_tokens'', JArr []),
           (asc ''classification'', JStr label), (asc ''Category'', category n)]"

section \<open>Properties\<close>

subsection \<open>Literals and membership\<close>

lemma key_eq_simps [simp]:
  "key_eq JNull x = py_eq JNull x"
  "key_eq (JBool b) x = py_eq (JBool b) x"
  "key_eq (JInt n) x = py_eq (JInt n) x"
  "key_eq (JStr s) x = py_eq (JStr s) x"
  by (simp_all add: key_eq_def)

lemma asc_simps:
  "asc [] = []"
  "asc (c # cs) = of_char c # asc cs"
  by (simp_all add: asc_def)

subsection \<open>normalise_logprobs\<close>

text \<open>
  C10. The claim is that each entry of \<open>top_alts\<close> carries the log-probability of the
  alternative it was made from. On a logprobs object with one token and one alternative
  whose log-probability is \<open>-1/2\<close>, the entry's \<open>logprob\<close> field is the list
  \<^verbatim>\<open>["logprob"]\<close> instead: the alternative's value is lost.
\<close>

theorem normalise_logprobs_drops_alt_logprob:
  "normalise_logprobs
     (JObj [(asc ''content'',
        JArr [JObj [(asc ''token'', JStr (asc ''a'')),
                    (asc ''logprob'', JFloat (Fin (- 1 / 2))),
                    (asc ''top_logprobs'',
                       JArr [JObj [(asc ''token'', JStr (asc ''a'')),
                                   (asc ''logprob'', JFloat (Fin (- 1 / 2)))]])]])])
   = Inr (JArr [JObj [(asc ''token'', JStr (asc ''a'')),
                      (asc ''logprob'', JFloat (Fin (- 1 / 2))),
                      (asc ''top_alts'',
                         JArr [JObj [(asc ''token'', JStr (asc ''a'')),
                                     (asc ''logprob'', JArr [JStr (asc ''logprob'')])]])]])"
  by (simp add: normalise_logprobs_def clean_entry_def top_alt_def asc_simps)

subsection \<open>Evaluating the regular expressions and the JSON reader\<close>

lemmas re_eval = label_line_re_def arrow_re_def word_re_def lit_def keyword_group_def asc_simps
  is_boundary_def is_word_def ci_match_def ci_prefix_def isspace_def prev_after_def

lemmas json_eval = json_loads_def skip_ws_def is_ws_def starts_def match_number_def Let_def
  is_digit_def nat_of_digits_def asc_simps hex4_def hex_val_def escape_char_def

lemma loads_label_int:
  \<open>json_loads U (asc ''{"label": 5}'') = Inr (JObj [(asc ''label'', JInt 5)])\<close>
  by (simp add: json_eval)

lemma loads_label_maybe:
  \<open>json_loads U (asc ''{"label": "maybe"}'') = Inr (JObj [(asc ''label'', JStr (asc ''maybe''))])\<close>
  by (simp add: json_eval)

subsection \<open>What extract_label returns\<close>

text \<open>
  C9. The claim is that \<open>extract_label\<close> returns \<open>None\<close>, \<open>"truthful"\<close> or
  \<open>"hallucinated"\<close> on every text and never raises. The \<open>extract_label\<close> of
  \<open>poll_truth_p2.py\<close> raises \<open>AttributeError\<close> on the text \<^verbatim>\<open>{"label": 5}\<close>, and on
  \<^verbatim>\<open>{"label": "maybe"}\<close> it returns \<open>"maybe"\<close>.
\<close>

theorem extract_label_p2_label_unchecked:
  \<open>extract_label_p2 U (asc ''{"label": 5}'') = Inl AttributeError \<and>
   extract_label_p2 U (asc ''{"label": "maybe"}'') = Inr (Some (asc ''maybe''))\<close>
proof -
  have a: \<open>extract_label_p2 U (asc ''{"label": 5}'') = Inl AttributeError\<close>
    by (simp add: extract_label_p2_def json_label_def loads_label_int)
  have \<open>json_label U (asc ''{"label": "maybe"}'') =
      Inr (Some (py_lower U (py_strip (asc ''maybe''))))\<close>
    by (simp add: json_label_def loads_label_maybe)
  moreover have \<open>py_lower U (py_strip (asc ''maybe'')) = asc ''maybe''\<close>
    by (simp add: asc_simps py_lower_def py_strip_def isspace_def ascii_lower_def)
  ultimately have b:
    \<open>extract_label_p2 U (asc ''{"label": "maybe"}'') = Inr (Some (asc ''maybe''))\<close>
    by (simp add: extract_label_p2_def)
  from a b show ?thesis by simp
qed

subsection \<open>Building the dedup index\<close>

text \<open>
  C5. The claim is that a malformed line of the evaluation log is skipped while the index
  is built. \<open>load_done\<close> of the two pollers stops with \<open>JSONDecodeError\<close> at a line that
  is not JSON, and with \<open>KeyError\<close> at a JSON object without the key fields; the lines
  after it are not read. \<open>load_done\<close> of the submitter passes over a line that is not
  JSON, and stops with \<open>KeyError\<close> at an object without the key fields.
\<close>

theorem load_done_stops_at_bad_line:
  "load_done U [None, Some r] = Inl JSONDecodeError \<and>
   load_done U [Some (JObj []), Some r] = Inl KeyError \<and>
   load_done_submit [Some (JObj []), Some r] = Inl KeyError \<and>
   load_done_submit (None # path) = load_done_submit path"
  by (simp add: load_done_def done_key_of_def)

subsection \<open>The polling loop\<close>

lemma poll_terminal: "poll statuses = Some status \<Longrightarrow> terminal status"
  by (induction statuses) (auto split: if_splits)

text \<open>
  C6. When the status that ends the polling loop is not \<open>completed\<close>, the run of the poller
  ends with an exception or \<open>sys.exit\<close> and the evaluation log is what it was before the
  run.
\<close>

theorem poller_unsuccessful_status:
  assumes "poll statuses = Some status" and "status \<noteq> asc ''completed''"
  shows "\<exists>e. poller extract_label U category api_key answers_file output_file statuses lines
            = (output_file, Raised e)"
  using assms by (auto simp: poller_def split: sum.splits)

theorem poller_unsuccessful_status_witness:
  "\<forall>extract_label U category.
     poll [asc ''in_progress'', asc ''failed''] = Some (asc ''failed'') \<and>
     asc ''failed'' \<noteq> asc ''completed'' \<and>
     (\<exists>e. poller extract_label U category (Some (asc ''sk'')) [] []
             [asc ''in_progress'', asc ''failed''] []
            = ([], Raised e))"
proof (intro allI)
  fix extract_label U category
  have p: "poll [asc ''in_progress'', asc ''failed''] = Some (asc ''failed'')"
    by (simp add: terminal_def asc_simps)
  have n: "asc ''failed'' \<noteq> asc ''completed''"
    by (simp add: asc_simps)
  from poller_unsuccessful_status [OF p n] p n
  show "poll [asc ''in_progress'', asc ''failed''] = Some (asc ''failed'') \<and>
     asc ''failed'' \<noteq> asc ''completed'' \<and>
     (\<exists>e. poller extract_label U category (Some (asc ''sk'')) [] []
             [asc ''in_progress'', asc ''failed''] []
            = ([], Raised e))"
    by blast
qed

subsection \<open>The merge loop\<close>

lemma bnd_Inr_iff: "bnd m f = Inr y \<longleftrightarrow> (\<exists>x. m = Inr x \<and> f x = Inr y)"
  by (cases m) auto

lemma bnd_Inl_iff: "bnd m f = Inl e \<longleftrightarrow> m = Inl e \<or> (\<exists>x. m = Inr x \<and> f x = Inl e)"
  by (cases m) auto

lemma judge_no_label:
  assumes "get_choice rec = Inr choice" and "get_eval_txt choice = Inr eval_txt"
    and "extract_label U eval_txt = Inr None"
  shows "judge extract_label U category rec n model temp row \<noteq> Inr (Some r)"
  using assms by (auto simp: judge_def bnd_Inr_iff)

lemma merge_line_no_label:
  assumes "get_choice rec = Inr choice" and "get_eval_txt choice = Inr eval_txt"
    and "extract_label U eval_txt = Inr None"
  shows "merge_line extract_label U category answers_index already_done (Some rec) \<noteq> Inr (Some r)"
  using assms by (auto simp: merge_line_def judge_def bnd_Inr_iff split: if_splits)

lemma judge_record:
  assumes "judge extract_label U category rec n model temp row = Inr (Some r)"
  shows "\<exists>choice eval_txt l answer judge_lp.
           get_choice rec = Inr choice \<and> get_eval_txt choice = Inr eval_txt \<and>
           extract_label U eval_txt = Inr (Some l) \<and>
           r = JObj [(asc ''Question_ind'', JInt n), (asc ''Evaluation'', JStr eval_txt),
                     (asc ''Model'', JStr model), (asc ''Temperature'', temp),
                     (asc ''Candidate Answer'', answer), (asc ''judge_tokens'', judge_lp),
                     (asc ''classification'', JStr l), (asc ''Category'', category n)]"
  using assms
  by (auto simp: judge_def evaluation_record_def bnd_Inr_iff split: option.splits)

lemma merge_line_record:
  assumes "merge_line extract_label U category answers_index already_done line = Inr (Some r)"
  shows "\<exists>rec qid model setting n row temp.
           line = Some rec \<and> split_custom_id rec = Inr (qid, model, setting) \<and>
           find_row U answers_index qid model setting = Inr (n, row) \<and>
           getitem row (asc ''temperature'') = Inr temp \<and>
           key_in_done (model, temp, qid) already_done = Inr False \<and>
           judge extract_label U category rec n model temp row = Inr (Some r)"
  using assms
  by (auto simp: merge_line_def bnd_Inr_iff split: option.splits if_splits)


lemma append_jsonl_Inr: "append_jsonl r f = Inr f' \<Longrightarrow> f' = f @ [Some r]"
  by (auto simp: append_jsonl_def split: if_splits)

lemma merge_loop_appends:
  assumes "merge_loop extract_label U category answers_index already_done lines output_file added
             = (written, out)"
  shows "\<exists>recs. written = output_file @ map Some recs \<and>
           (\<forall>n. out = Finished n \<longrightarrow> n = added + length recs) \<and>
           (\<forall>r\<in>set recs. \<exists>line\<in>set lines.
              merge_line extract_label U category answers_index already_done line = Inr (Some r))"
  using assms
proof (induction lines arbitrary: output_file added)
  case Nil
  then show ?case by auto
next
  case (Cons line lines)
  show ?case
  proof (cases "merge_line extract_label U category answers_index already_done line")
    case (Inl e)
    with Cons.prems show ?thesis by auto
  next
    case (Inr res)
    show ?thesis
    proof (cases res)
      case None
      with Inr Cons.prems
      have "merge_loop extract_label U category answers_index already_done lines output_file added
              = (written, out)"
        by simp
      from Cons.IH [OF this] show ?thesis by auto
    next
      case (Some r)
      show ?thesis
      proof (cases "append_jsonl r output_file")
        case (Inl e)
        with Inr Some Cons.prems show ?thesis by auto
      next
        case app: (Inr f')
        then have f': "f' = output_file @ [Some r]"
          by (rule append_jsonl_Inr)
        from Inr Some app Cons.prems
        have "merge_loop extract_label U category answers_index already_done lines f' (added + 1)
                = (written, out)"
          by simp
        from Cons.IH [OF this] obtain recs where
          w: "written = f' @ map Some recs" and
          n: "\<forall>n. out = Finished n \<longrightarrow> n = added + 1 + length recs" and
          r: "\<forall>r\<in>set recs. \<exists>line\<in>set lines.
                merge_line extract_label U category answers_index already_done line = Inr (Some r)"
          by blast
        show ?thesis
        proof (intro exI [of _ "r # recs"] conjI)
          show "written = output_file @ map Some (r # recs)" using w f' by simp
          show "\<forall>n. out = Finished n \<longrightarrow> n = added + length (r # recs)" using n by simp
          show "\<forall>r\<in>set (r # recs). \<exists>line\<in>set (line # lines).
                  merge_line extract_label U category answers_index already_done line = Inr (Some r)"
            using r Inr Some by auto
        qed
      qed
    qed
  qed
qed


lemma ex_get_choice: "get_choice (ex_result cid content) = Inr (ex_choice content)"
  by (simp add: get_choice_def ex_result_def asc_simps)

lemma ex_get_eval_txt: "get_eval_txt (ex_choice content) = Inr (py_strip (lstrip_bom content))"
  by (simp add: get_eval_txt_def ex_choice_def asc_simps)

lemma ex_logprobs:
  "bnd (getitem (ex_choice content) (asc ''logprobs'')) normalise_logprobs = Inr (JArr [])"
  by (simp add: ex_choice_def normalise_logprobs_def asc_simps)

lemma ex_split: "split_custom_id (ex_result cid content) =
    (case split_bar cid of [qid, model, setting] \<Rightarrow> Inr (qid, model, setting) | _ \<Rightarrow> Inl ValueError)"
  by (simp add: split_custom_id_def ex_result_def asc_simps)

lemma no_idea: "extract_label_batches U (asc ''no idea'') = Inr None"
  by (simp add: extract_label_batches_def re_eval)

lemma strip_no_idea: "py_strip (lstrip_bom (asc ''no idea'')) = asc ''no idea''"
  by (simp add: py_strip_def lstrip_bom_def isspace_def asc_simps)

lemma ex_index:
  "load_answers_index [Some (ex_row 7 (asc ''m'') (asc ''a'') (JInt 0) (asc ''x''))] =
     Inr [((JInt 7, JStr (asc ''m''), JStr (asc ''a'')),
           ex_row 7 (asc ''m'') (asc ''a'') (JInt 0) (asc ''x''))]"
  by (simp add: load_answers_index_def index_entry_def ex_row_def asc_simps)

lemma ex_find_row:
  "find_row U [((JInt 7, JStr (asc ''m''), JStr (asc ''a'')),
           ex_row 7 (asc ''m'') (asc ''a'') (JInt 0) (asc ''x''))] (asc ''7'') (asc ''m'') (asc ''a'')
   = Inr (7, ex_row 7 (asc ''m'') (asc ''a'') (JInt 0) (asc ''x''))"
  by (simp add: find_row_def py_int_def int_strip_def int_space_def isspace_def digit_val_def index_lookup_def
      key3_eq_def asc_simps)

lemma ex_merge_line_no_idea:
  "merge_line extract_label_batches U category
     [((JInt 7, JStr (asc ''m''), JStr (asc ''a'')),
           ex_row 7 (asc ''m'') (asc ''a'') (JInt 0) (asc ''x''))] []
     (Some (ex_result (asc ''7|m|a'') (asc ''no idea''))) = Inr None"
proof -
  have s: "split_bar (asc ''7|m|a'') = [asc ''7'', asc ''m'', asc ''a'']"
    by (simp add: asc_simps)
  have t: "getitem (ex_row 7 (asc ''m'') (asc ''a'') (JInt 0) (asc ''x'')) (asc ''temperature'')
             = Inr (JInt 0)"
    by (simp add: ex_row_def asc_simps)
  have l: "getitem (ex_choice (asc ''no idea'')) (asc ''logprobs'') = Inr (JObj [(asc ''content'', JArr [])])"
    by (simp add: ex_choice_def asc_simps)
  have n: "normalise_logprobs (JObj [(asc ''content'', JArr [])]) = Inr (JArr [])"
    by (simp add: normalise_logprobs_def asc_simps)
  show ?thesis
    by (simp add: merge_line_def ex_split s ex_find_row t key_in_done_def judge_def ex_get_choice
        ex_get_eval_txt strip_no_idea l n no_idea)
qed


text \<open>
  C4. A batch result whose judge text gives no label (\<open>extract_label\<close> returns \<open>None\<close>)
  leaves the evaluation log and the counter \<open>added\<close> as they are: the loop goes on to the
  next line, or the run stops on an exception with the log unchanged. Every record that a
  run of the merge loop appends carries, as \<open>classification\<close>, the label extracted from its
  own \<open>Evaluation\<close> text, and \<open>added\<close> grows by the number of records appended.
\<close>

theorem merge_writes_labelled_only:
  "(get_choice rec = Inr choice \<longrightarrow> get_eval_txt choice = Inr eval_txt \<longrightarrow>
    extract_label U eval_txt = Inr None \<longrightarrow>
      merge_loop extract_label U category answers_index already_done (Some rec # lines)
        output_file added
      = merge_loop extract_label U category answers_index already_done lines output_file added \<or>
      (\<exists>e. merge_loop extract_label U category answers_index already_done (Some rec # lines)
             output_file added = (output_file, Raised e))) \<and>
   (merge_loop extract_label U category answers_index already_done lines output_file added
      = (written, out) \<longrightarrow>
      (\<exists>recs. written = output_file @ map Some recs \<and>
         (\<forall>n. out = Finished n \<longrightarrow> n = added + length recs) \<and>
         (\<forall>r\<in>set recs. \<exists>txt l.
            getitem r (asc ''Evaluation'') = Inr (JStr txt) \<and>
            extract_label U txt = Inr (Some l) \<and>
            getitem r (asc ''classification'') = Inr (JStr l))))"
proof (intro conjI impI)
  assume a: "get_choice rec = Inr choice" "get_eval_txt choice = Inr eval_txt"
    "extract_label U eval_txt = Inr None"
  let ?m = "merge_line extract_label U category answers_index already_done (Some rec)"
  have "\<And>r. ?m \<noteq> Inr (Some r)"
    using a by (rule merge_line_no_label)
  then have "(\<exists>e. ?m = Inl e) \<or> ?m = Inr None"
    by (cases ?m) (auto simp: option.exhaust)
  then show "merge_loop extract_label U category answers_index already_done (Some rec # lines)
        output_file added
      = merge_loop extract_label U category answers_index already_done lines output_file added \<or>
      (\<exists>e. merge_loop extract_label U category answers_index already_done (Some rec # lines)
             output_file added = (output_file, Raised e))"
    by auto
next
  assume "merge_loop extract_label U category answers_index already_done lines output_file added
      = (written, out)"
  from merge_loop_appends [OF this] obtain recs where
    w: "written = output_file @ map Some recs" and
    n: "\<forall>n. out = Finished n \<longrightarrow> n = added + length recs" and
    r: "\<forall>r\<in>set recs. \<exists>line\<in>set lines.
          merge_line extract_label U category answers_index already_done line = Inr (Some r)"
    by blast
  have "\<forall>r\<in>set recs. \<exists>txt l.
            getitem r (asc ''Evaluation'') = Inr (JStr txt) \<and>
            extract_label U txt = Inr (Some l) \<and>
            getitem r (asc ''classification'') = Inr (JStr l)"
  proof
    fix r assume "r \<in> set recs"
    with r obtain line where
      "merge_line extract_label U category answers_index already_done line = Inr (Some r)"
      by blast
    from merge_line_record [OF this] obtain rec n model temp row where
      "judge extract_label U category rec n model temp row = Inr (Some r)"
      by blast
    from judge_record [OF this] obtain eval_txt l answer judge_lp where
      l: "extract_label U eval_txt = Inr (Some l)" and
      rr: "r = JObj [(asc ''Question_ind'', JInt n), (asc ''Evaluation'', JStr eval_txt),
                     (asc ''Model'', JStr model), (asc ''Temperature'', temp),
                     (asc ''Candidate Answer'', answer), (asc ''judge_tokens'', judge_lp),
                     (asc ''classification'', JStr l), (asc ''Category'', category n)]"
      by blast
    have "getitem r (asc ''Evaluation'') = Inr (JStr eval_txt)"
      "getitem r (asc ''classification'') = Inr (JStr l)"
      unfolding rr by (simp_all add: asc_simps)
    with l show "\<exists>txt l.
            getitem r (asc ''Evaluation'') = Inr (JStr txt) \<and>
            extract_label U txt = Inr (Some l) \<and>
            getitem r (asc ''classification'') = Inr (JStr l)"
      by blast
  qed
  with w n show "\<exists>recs. written = output_file @ map Some recs \<and>
         (\<forall>n. out = Finished n \<longrightarrow> n = added + length recs) \<and>
         (\<forall>r\<in>set recs. \<exists>txt l.
            getitem r (asc ''Evaluation'') = Inr (JStr txt) \<and>
            extract_label U txt = Inr (Some l) \<and>
            getitem r (asc ''classification'') = Inr (JStr l))"
    by blast
qed

theorem merge_writes_labelled_only_witness:
  "\<forall>U category.
     get_choice (ex_result (asc ''7|m|a'') (asc ''no idea'')) = Inr (ex_choice (asc ''no idea'')) \<and>
     get_eval_txt (ex_choice (asc ''no idea'')) = Inr (asc ''no idea'') \<and>
     extract_label_batches U (asc ''no idea'') = Inr None \<and>
     merge_loop extract_label_batches U category
       [((JInt 7, JStr (asc ''m''), JStr (asc ''a'')),
          ex_row 7 (asc ''m'') (asc ''a'') (JInt 0) (asc ''x''))] []
       [Some (ex_result (asc ''7|m|a'') (asc ''no idea''))] [] 0 = ([], Finished 0)"
proof (intro allI)
  fix U category
  let ?idx = "[((JInt 7, JStr (asc ''m''), JStr (asc ''a'')),
          ex_row 7 (asc ''m'') (asc ''a'') (JInt 0) (asc ''x''))]"
  let ?rec = "ex_result (asc ''7|m|a'') (asc ''no idea'')"
  have a: "get_choice ?rec = Inr (ex_choice (asc ''no idea''))"
    by (rule ex_get_choice)
  have b: "get_eval_txt (ex_choice (asc ''no idea'')) = Inr (asc ''no idea'')"
    by (simp add: ex_get_eval_txt strip_no_idea)
  have c: "extract_label_batches U (asc ''no idea'') = Inr None"
    by (rule no_idea)
  have d: "merge_loop extract_label_batches U category ?idx [] [] [] 0 = ([], Finished 0)"
    by simp
  from merge_writes_labelled_only
    [of ?rec "ex_choice (asc ''no idea'')" "asc ''no idea''" extract_label_batches U category
        ?idx "[]" "[]" "[]" 0 "[]" "Finished 0"]
    a b c d
  have "merge_loop extract_label_batches U category ?idx [] [Some ?rec] [] 0 = ([], Finished 0) \<or>
     (\<exists>e. merge_loop extract_label_batches U category ?idx [] [Some ?rec] [] 0 = ([], Raised e))"
    by simp
  moreover have "merge_loop extract_label_batches U category ?idx [] [Some ?rec] [] 0
      = ([], Finished 0)"
    by (simp add: ex_merge_line_no_idea)
  ultimately show "get_choice ?rec = Inr (ex_choice (asc ''no idea'')) \<and>
     get_eval_txt (ex_choice (asc ''no idea'')) = Inr (asc ''no idea'') \<and>
     extract_label_batches U (asc ''no idea'') = Inr None \<and>
     merge_loop extract_label_batches U category ?idx [] [Some ?rec] [] 0 = ([], Finished 0)"
    using a b c by blast
qed

subsection \<open>The submitter\<close>

lemma identity_in_log_simps:
  "identity_in_log [] k = False"
  "identity_in_log (line # path) k =
     ((case log_identity line of None \<Rightarrow> False | Some k' \<Rightarrow> key3_eq k k') \<or>
      identity_in_log path k)"
  by (simp_all add: identity_in_log_def)

lemma load_done_submit_index:
  "load_done_submit path = Inr already_done \<Longrightarrow>
     list_ex (key3_eq k) already_done = identity_in_log path k"
proof (induction path arbitrary: already_done)
  case Nil
  then show ?case by (simp add: identity_in_log_simps)
next
  case (Cons line path)
  show ?case
  proof (cases line)
    case None
    with Cons show ?thesis by (simp add: identity_in_log_simps log_identity_def)
  next
    case (Some obj)
    with Cons.prems obtain m t q rest where
      g: "getitem obj (asc ''Model'') = Inr m" "getitem obj (asc ''Temperature'') = Inr t"
         "getitem obj (asc ''Question_ind'') = Inr q" and
      r: "load_done_submit path = Inr rest" and
      d: "already_done = (m, t, q) # rest"
      by (auto simp: bnd_Inr_iff split: if_splits)
    from Cons.IH [OF r] have "list_ex (key3_eq k) rest = identity_in_log path k" .
    moreover from g have "log_identity (Some obj) = Some (m, t, q)"
      by (simp add: log_identity_def)
    ultimately show ?thesis using d Some by (simp add: identity_in_log_simps)
  qed
qed

lemma request_for_Some:
  assumes "request_for template U truth_ds already_done row = Inr (Some req)"
  shows "\<exists>m t q s prompt.
           getitem row (asc ''model'') = Inr m \<and> getitem row (asc ''temperature'') = Inr t \<and>
           getitem row (asc ''qid'') = Inr q \<and> getitem row (asc ''setting'') = Inr s \<and>
           k_in_done (m, t, q) already_done = Inr False \<and>
           req = request (custom_id U q m s) prompt"
  using assms by (fastforce simp: request_for_def bnd_Inr_iff split: if_splits)

lemma requests_picks:
  assumes "requests template U truth_ds LIMIT already_done answers_list reqs0 = Inr reqs"
  shows "\<exists>new. reqs = reqs0 @ new \<and>
           (LIMIT \<le> int (length reqs0) \<longrightarrow> new = []) \<and>
           (int (length reqs0) \<le> LIMIT \<longrightarrow> int (length reqs) \<le> LIMIT) \<and>
           (\<forall>req\<in>set new. \<exists>row\<in>set answers_list.
              request_for template U truth_ds already_done row = Inr (Some req))"
  using assms
proof (induction answers_list arbitrary: reqs0)
  case Nil
  then show ?case by auto
next
  case (Cons row answers_list)
  show ?case
  proof (cases "LIMIT \<le> int (length reqs0)")
    case True
    with Cons.prems show ?thesis by auto
  next
    case False
    show ?thesis
    proof (cases "request_for template U truth_ds already_done row")
      case (Inl e)
      with False Cons.prems show ?thesis by auto
    next
      case (Inr res)
      show ?thesis
      proof (cases res)
        case None
        with Inr False Cons.prems
        have "requests template U truth_ds LIMIT already_done answers_list reqs0 = Inr reqs"
          by simp
        from Cons.IH [OF this] False show ?thesis by auto
      next
        case (Some r)
        with Inr False Cons.prems
        have "requests template U truth_ds LIMIT already_done answers_list (reqs0 @ [r]) = Inr reqs"
          by simp
        from Cons.IH [OF this] obtain new where
          n: "reqs = (reqs0 @ [r]) @ new"
             "int (length (reqs0 @ [r])) \<le> LIMIT \<longrightarrow> int (length reqs) \<le> LIMIT"
             "\<forall>req\<in>set new. \<exists>row\<in>set answers_list.
                request_for template U truth_ds already_done row = Inr (Some req)"
          by blast
        show ?thesis
        proof (intro exI [of _ "r # new"] conjI)
          show "reqs = reqs0 @ r # new" using n(1) by simp
          show "LIMIT \<le> int (length reqs0) \<longrightarrow> r # new = []" using False by simp
          show "int (length reqs0) \<le> LIMIT \<longrightarrow> int (length reqs) \<le> LIMIT"
            using n(2) False by simp
          show "\<forall>req\<in>set (r # new). \<exists>row\<in>set (row # answers_list).
              request_for template U truth_ds already_done row = Inr (Some req)"
            using n(3) Inr Some by auto
        qed
      qed
    qed
  qed
qed

lemma map_r_set:
  "map_r f xs = Inr ys \<Longrightarrow> \<forall>y\<in>set ys. \<exists>x\<in>set xs. f x = Inr y"
proof (induction xs arbitrary: ys)
  case Nil
  then show ?case by simp
next
  case (Cons x xs)
  from Cons.prems obtain y ys' where
    y: "f x = Inr y" and r: "map_r f xs = Inr ys'" and e: "ys = y # ys'"
    by (auto simp: bnd_Inr_iff)
  from Cons.IH [OF r] y e show ?case by auto
qed

text \<open>
  C7. When the submitter sends a request file, it holds at most \<open>LIMIT\<close> requests, and
  each request was made from a row of the answers file whose identity (model, temperature,
  question id) does not appear in the evaluation log.
\<close>

theorem submitter_limit_and_unevaluated:
  assumes "submitter template U truth_ds LIMIT key answers_file output_file = Inr reqs"
  shows "int (length reqs) \<le> LIMIT \<and>
         (\<forall>req\<in>set reqs. \<exists>row m t q s.
            Some row \<in> set answers_file \<and>
            getitem row (asc ''model'') = Inr m \<and> getitem row (asc ''temperature'') = Inr t \<and>
            getitem row (asc ''qid'') = Inr q \<and> getitem row (asc ''setting'') = Inr s \<and>
            getitem req (asc ''custom_id'') = Inr (JStr (custom_id U q m s)) \<and>
            \<not> identity_in_log output_file (m, t, q))"
proof -
  from assms obtain answers_list already_done where
    al: "map_r (\<lambda>line. case line of None \<Rightarrow> Inl JSONDecodeError | Some row \<Rightarrow> Inr row)
           answers_file = Inr answers_list" and
    ld: "load_done_submit output_file = Inr already_done" and
    rq: "requests template U truth_ds LIMIT already_done answers_list [] = Inr reqs" and
    ne: "reqs \<noteq> []"
    by (auto simp: submitter_def bnd_Inr_iff split: if_splits)
  from requests_picks [OF rq] have
    lim: "LIMIT \<le> 0 \<longrightarrow> reqs = []" "0 \<le> LIMIT \<longrightarrow> int (length reqs) \<le> LIMIT" and
    pick: "\<forall>req\<in>set reqs. \<exists>row\<in>set answers_list.
             request_for template U truth_ds already_done row = Inr (Some req)"
    by auto
  from lim ne have 1: "int (length reqs) \<le> LIMIT"
    by (cases "LIMIT \<le> 0") auto
  have 2: "\<exists>row m t q s.
            Some row \<in> set answers_file \<and>
            getitem row (asc ''model'') = Inr m \<and> getitem row (asc ''temperature'') = Inr t \<and>
            getitem row (asc ''qid'') = Inr q \<and> getitem row (asc ''setting'') = Inr s \<and>
            getitem req (asc ''custom_id'') = Inr (JStr (custom_id U q m s)) \<and>
            \<not> identity_in_log output_file (m, t, q)" if "req \<in> set reqs" for req
  proof -
    from pick that obtain row where
      row: "row \<in> set answers_list" and
      rf: "request_for template U truth_ds already_done row = Inr (Some req)"
      by blast
    from map_r_set [OF al] row have "Some row \<in> set answers_file"
      by (auto split: option.splits)
    moreover from request_for_Some [OF rf] obtain m t q s prompt where
      g: "getitem row (asc ''model'') = Inr m" "getitem row (asc ''temperature'') = Inr t"
         "getitem row (asc ''qid'') = Inr q" "getitem row (asc ''setting'') = Inr s" and
      k: "k_in_done (m, t, q) already_done = Inr False" and
      r: "req = request (custom_id U q m s) prompt"
      by blast
    moreover from k have "\<not> list_ex (key3_eq (m, t, q)) already_done"
      by (auto simp: k_in_done_def split: if_splits)
    with load_done_submit_index [OF ld] have "\<not> identity_in_log output_file (m, t, q)"
      by simp
    moreover from r have "getitem req (asc ''custom_id'') = Inr (JStr (custom_id U q m s))"
      by (simp add: request_def asc_simps)
    ultimately show ?thesis by blast
  qed
  from 1 2 show ?thesis by blast
qed


lemma ex_row_fields:
  "getitem (ex_row qid model setting temp answer) (asc ''qid'') = Inr (JInt qid)"
  "getitem (ex_row qid model setting temp answer) (asc ''model'') = Inr (JStr model)"
  "getitem (ex_row qid model setting temp answer) (asc ''setting'') = Inr (JStr setting)"
  "getitem (ex_row qid model setting temp answer) (asc ''temperature'') = Inr temp"
  "getitem (ex_row qid model setting temp answer) (asc ''answer'') = Inr (JStr answer)"
  by (simp_all add: ex_row_def asc_simps)

lemma ex_logged_fields:
  "getitem (ex_logged qid model temp) (asc ''Question_ind'') = Inr (JInt qid)"
  "getitem (ex_logged qid model temp) (asc ''Model'') = Inr (JStr model)"
  "getitem (ex_logged qid model temp) (asc ''Temperature'') = Inr temp"
  by (simp_all add: ex_logged_def asc_simps)

lemma ex_custom_id: "custom_id U (JInt 8) (JStr (asc ''m'')) (JStr (asc ''a'')) = asc ''8|m|a''"
  by (simp add: custom_id_def str_int_def asc_simps)

lemma ex_request_for_7:
  "request_for template U ex_truth_ds [(JStr (asc ''m''), JInt 0, JInt 7)]
     (ex_row 7 (asc ''m'') (asc ''a'') (JInt 0) (asc ''x'')) = Inr None"
  by (simp add: request_for_def ex_row_fields k_in_done_def key3_eq_def)

lemma ex_request_for_8:
  "request_for [] U ex_truth_ds [(JStr (asc ''m''), JInt 0, JInt 7)]
     (ex_row 8 (asc ''m'') (asc ''a'') (JInt 0) (asc ''y'')) = Inr (Some (request (asc ''8|m|a'') []))"
  by (simp add: request_for_def ex_row_fields k_in_done_def key3_eq_def ex_truth_ds_def
      ex_custom_id build_prompt_def)

lemma ex_request_encodable: "encodable (request (asc ''8|m|a'') [])"
  by (simp add: request_def utf8_ok_def asc_simps)

lemma ex_load_done_submit:
  "load_done_submit [Some (ex_logged 7 (asc ''m'') (JInt 0))] = Inr [(JStr (asc ''m''), JInt 0, JInt 7)]"
  by (simp add: ex_logged_fields)

lemma ex_requests:
  "requests [] U ex_truth_ds 5 [(JStr (asc ''m''), JInt 0, JInt 7)]
     [ex_row 7 (asc ''m'') (asc ''a'') (JInt 0) (asc ''x''),
      ex_row 8 (asc ''m'') (asc ''a'') (JInt 0) (asc ''y'')] []
   = Inr [request (asc ''8|m|a'') []]"
  by (simp add: ex_request_for_7 ex_request_for_8)


lemma ex_submitter:
  "submitter [] U ex_truth_ds 5 (Some (asc ''sk''))
     [Some (ex_row 7 (asc ''m'') (asc ''a'') (JInt 0) (asc ''x'')),
      Some (ex_row 8 (asc ''m'') (asc ''a'') (JInt 0) (asc ''y''))]
     [Some (ex_logged 7 (asc ''m'') (JInt 0))]
   = Inr [request (asc ''8|m|a'') []]"
proof -
  have "asc ''sk'' \<noteq> []" by (simp add: asc_simps)
  then show ?thesis
    unfolding submitter_def
    by (simp del: load_done_submit.simps requests.simps
        add: ex_load_done_submit ex_requests ex_request_encodable)
qed

theorem submitter_limit_and_unevaluated_witness:
  "\<forall>U. submitter [] U ex_truth_ds 5 (Some (asc ''sk''))
          [Some (ex_row 7 (asc ''m'') (asc ''a'') (JInt 0) (asc ''x'')),
           Some (ex_row 8 (asc ''m'') (asc ''a'') (JInt 0) (asc ''y''))]
          [Some (ex_logged 7 (asc ''m'') (JInt 0))]
        = Inr [request (asc ''8|m|a'') []] \<and>
        int (length [request (asc ''8|m|a'') []]) \<le> 5 \<and>
        identity_in_log [Some (ex_logged 7 (asc ''m'') (JInt 0))] (JStr (asc ''m''), JInt 0, JInt 7)"
proof (intro allI)
  fix U
  have "identity_in_log [Some (ex_logged 7 (asc ''m'') (JInt 0))] (JStr (asc ''m''), JInt 0, JInt 7)"
    by (simp add: identity_in_log_simps log_identity_def ex_logged_fields key3_eq_def)
  with submitter_limit_and_unevaluated [OF ex_submitter [of U]] ex_submitter [of U]
  show "submitter [] U ex_truth_ds 5 (Some (asc ''sk''))
          [Some (ex_row 7 (asc ''m'') (asc ''a'') (JInt 0) (asc ''x'')),
           Some (ex_row 8 (asc ''m'') (asc ''a'') (JInt 0) (asc ''y''))]
          [Some (ex_logged 7 (asc ''m'') (JInt 0))]
        = Inr [request (asc ''8|m|a'') []] \<and>
        int (length [request (asc ''8|m|a'') []]) \<le> 5 \<and>
        identity_in_log [Some (ex_logged 7 (asc ''m'') (JInt 0))] (JStr (asc ''m''), JInt 0, JInt 7)"
    by blast
qed

subsection \<open>The correlation id\<close>

declare digits.simps [simp del]

lemma digits_range: "c \<in> set (digits n) \<Longrightarrow> 48 \<le> c \<and> c \<le> 57"
proof (induction n arbitrary: c rule: digits.induct)
  case (1 n)
  show ?case
  proof (cases "n < 10")
    case True
    with "1.prems" show ?thesis by (simp add: digits.simps [of n])
  next
    case False
    with "1.prems" have "c \<in> set (digits (n div 10)) \<or> c = 48 + n mod 10"
      by (auto simp: digits.simps [of n])
    with "1.IH" [OF False] show ?thesis by auto
  qed
qed

lemma digits_not_Nil: "digits n \<noteq> []"
  by (simp add: digits.simps [of n])

lemma digits_value:
  "foldl (\<lambda>a d. 10 * a + (d - 48)) acc (digits n) = acc * 10 ^ length (digits n) + n"
proof (induction n arbitrary: acc rule: digits.induct)
  case (1 n)
  show ?case
  proof (cases "n < 10")
    case True
    then show ?thesis by (simp add: digits.simps [of n])
  next
    case False
    have "foldl (\<lambda>a d. 10 * a + (d - 48)) acc (digits n)
        = 10 * foldl (\<lambda>a d. 10 * a + (d - 48)) acc (digits (n div 10)) + n mod 10"
      using False by (simp add: digits.simps [of n])
    also have "\<dots> = 10 * (acc * 10 ^ length (digits (n div 10)) + n div 10) + n mod 10"
      using "1.IH" [OF False] by simp
    also have "\<dots> = acc * 10 ^ length (digits n) + n"
      using False by (simp add: digits.simps [of n] algebra_simps)
    finally show ?thesis .
  qed
qed

lemma digs_all_digits:
  "\<forall>c\<in>set ds. 48 \<le> c \<and> c \<le> 57 \<Longrightarrow>
     digs U acc ds = Some (foldl (\<lambda>a d. 10 * a + (d - 48)) acc ds)"
  by (induction ds arbitrary: acc) (auto simp: digit_val_def)

lemma digs_digits: "digs U 0 (digits n) = Some n"
  using digs_all_digits [of "digits n" U 0] digits_range [of _ n]
  by (simp add: digits_value)

lemma int_strip_id:
  assumes "s \<noteq> []" and "\<not> int_space (hd s)" and "\<not> int_space (last s)"
  shows "int_strip s = s"
proof -
  from assms have "dropWhile int_space s = s"
    by (cases s) auto
  moreover from assms have "dropWhile int_space (rev s) = rev s"
    by (cases "rev s") (auto simp: last_rev [symmetric] hd_rev)
  ultimately show ?thesis by (simp add: int_strip_def)
qed

lemma digit_not_space: "48 \<le> c \<and> c \<le> 57 \<Longrightarrow> \<not> int_space c"
  by (auto simp: int_space_def isspace_def)

lemma py_int_str_int: "py_int U (str_int n) = Some n"
proof -
  obtain d ds where dd: "digits (nat \<bar>n\<bar>) = d # ds"
    using digits_not_Nil [of "nat \<bar>n\<bar>"] by (cases "digits (nat \<bar>n\<bar>)") auto
  have rng: "\<And>c. c \<in> set (d # ds) \<Longrightarrow> 48 \<le> c \<and> c \<le> 57"
    using digits_range [of _ "nat \<bar>n\<bar>"] dd by simp
  have d: "48 \<le> d \<and> d \<le> 57" using rng by simp
  have l: "48 \<le> last (d # ds) \<and> last (d # ds) \<le> 57"
    using rng [of "last (d # ds)"] by simp
  have val: "digs U 0 (d # ds) = Some (nat \<bar>n\<bar>)"
    using digs_digits [of U "nat \<bar>n\<bar>"] dd by simp
  have dv: "digit_val U d \<noteq> None" using d by (simp add: digit_val_def)
  show ?thesis
  proof (cases "n < 0")
    case True
    then have s: "str_int n = 45 # d # ds"
      using dd by (simp add: str_int_def abs_if)
    have "int_strip (45 # d # ds) = 45 # d # ds"
      using l by (intro int_strip_id) (auto simp: int_space_def isspace_def digit_not_space)
    with s val dv True show ?thesis
      by (simp add: py_int_def del: digs.simps)
  next
    case False
    then have s: "str_int n = d # ds"
      using dd by (simp add: str_int_def abs_if)
    have "int_strip (d # ds) = d # ds"
      using l d by (intro int_strip_id) (auto simp: digit_not_space)
    with s val dv False d show ?thesis
      by (simp add: py_int_def del: digs.simps)
  qed
qed

lemma split_bar_no_bar: "124 \<notin> set a \<Longrightarrow> split_bar a = [a]"
  by (induction a) auto

lemma split_bar_append: "124 \<notin> set a \<Longrightarrow> split_bar (a @ 124 # rest) = a # split_bar rest"
  by (induction a) auto

lemma str_int_no_bar: "124 \<notin> set (str_int n)"
  using digits_range [of 124] by (auto simp: str_int_def)

lemma split_custom_id_of:
  assumes "124 \<notin> set model" and "124 \<notin> set setting"
  shows "split_bar (custom_id U (JInt n) (JStr model) (JStr setting)) = [str_int n, model, setting]"
  using assms str_int_no_bar [of n]
  by (simp add: custom_id_def split_bar_append split_bar_no_bar)


lemma map_r_all:
  "map_r f xs = Inr ys \<Longrightarrow> \<forall>x\<in>set xs. \<exists>y\<in>set ys. f x = Inr y"
proof (induction xs arbitrary: ys)
  case Nil
  then show ?case by simp
next
  case (Cons x xs)
  from Cons.prems obtain y ys' where
    y: "f x = Inr y" and r: "map_r f xs = Inr ys'" and e: "ys = y # ys'"
    by (auto simp: bnd_Inr_iff)
  from Cons.IH [OF r] y e show ?case by auto
qed

lemma index_entry_Inr:
  assumes "index_entry line = Inr e"
  shows "\<exists>row q m s. line = Some row \<and> e = ((q, m, s), row) \<and>
           getitem row (asc ''qid'') = Inr q \<and> getitem row (asc ''model'') = Inr m \<and>
           getitem row (asc ''setting'') = Inr s"
  using assms
  by (auto simp: index_entry_def bnd_Inr_iff split: option.splits if_splits)

lemma index_lookup_found:
  assumes "e \<in> set answers_index" and "key3_eq k (fst e)"
  shows "\<exists>e'\<in>set answers_index. key3_eq k (fst e') \<and> index_lookup answers_index k = Inr (snd e')"
proof -
  let ?hits = "filter (\<lambda>e. key3_eq k (fst e)) answers_index"
  from assms have ne: "?hits \<noteq> []"
    by (auto simp: filter_empty_conv)
  then have "last ?hits \<in> set ?hits"
    by (rule last_in_set)
  then have "last ?hits \<in> set answers_index" "key3_eq k (fst (last ?hits))"
    by auto
  moreover from ne have "index_lookup answers_index k = Inr (snd (last ?hits))"
    by (cases ?hits) (auto simp: index_lookup_def)
  ultimately show ?thesis by blast
qed

lemma py_eq_JStr: "py_eq (JStr s) x \<longleftrightarrow> x = JStr s"
  by (cases x) auto

lemma find_row_of_answer:
  assumes idx: "load_answers_index answers_file = Inr answers_index"
    and row: "Some row \<in> set answers_file"
    and q: "getitem row (asc ''qid'') = Inr (JInt n)"
    and m: "getitem row (asc ''model'') = Inr (JStr model)"
    and s: "getitem row (asc ''setting'') = Inr (JStr setting)"
  shows "\<exists>row' q'. find_row U answers_index (str_int n) model setting = Inr (n, row') \<and>
           Some row' \<in> set answers_file \<and>
           getitem row' (asc ''qid'') = Inr q' \<and> py_eq (JInt n) q' \<and>
           getitem row' (asc ''model'') = Inr (JStr model) \<and>
           getitem row' (asc ''setting'') = Inr (JStr setting)"
proof -
  let ?k = "(JInt n, JStr model, JStr setting)"
  from map_r_all [OF idx [unfolded load_answers_index_def]] row
  obtain e where e: "e \<in> set answers_index" "index_entry (Some row) = Inr e"
    by blast
  from index_entry_Inr [OF e(2)] q m s have "e = (?k, row)"
    by auto
  then have "key3_eq ?k (fst e)"
    by (simp add: key3_eq_def)
  from index_lookup_found [OF e(1) this] obtain e' where
    e': "e' \<in> set answers_index" "key3_eq ?k (fst e')"
        "index_lookup answers_index ?k = Inr (snd e')"
    by blast
  from map_r_set [OF idx [unfolded load_answers_index_def]] e'(1)
  obtain line where line: "line \<in> set answers_file" "index_entry line = Inr e'"
    by blast
  from index_entry_Inr [OF line(2)] obtain row' q' m' s' where
    r': "line = Some row'" "e' = ((q', m', s'), row')"
        "getitem row' (asc ''qid'') = Inr q'" "getitem row' (asc ''model'') = Inr m'"
        "getitem row' (asc ''setting'') = Inr s'"
    by blast
  from e'(2) r'(2) have "py_eq (JInt n) q'" "m' = JStr model" "s' = JStr setting"
    by (auto simp: key3_eq_def py_eq_JStr)
  moreover from e'(3) r'(2) have "find_row U answers_index (str_int n) model setting = Inr (n, row')"
    by (simp add: find_row_def py_int_str_int)
  ultimately show ?thesis using line(1) r' by blast
qed

text \<open>
  C8. The claim is that splitting the \<open>custom_id\<close> of a request gives back the (question
  id, model, setting) triple of the row it was made from, for every row. It does so when
  the question id is an \<open>int\<close> and the model and the setting are strings without the
  separator \<open>|\<close>: the three parts are \<open>str(qid)\<close>, the model and the setting, \<open>int\<close> of the
  first part is the question id, and the lookup of the merger in the answers index finds
  a row of the answers file with that identity (the index keeps the last such row).
\<close>

theorem custom_id_round_trip:
  "(124 \<notin> set model \<longrightarrow> 124 \<notin> set setting \<longrightarrow>
      split_bar (custom_id U (JInt n) (JStr model) (JStr setting)) = [str_int n, model, setting] \<and>
      py_int U (str_int n) = Some n) \<and>
   (load_answers_index answers_file = Inr answers_index \<longrightarrow>
    Some row \<in> set answers_file \<longrightarrow>
    getitem row (asc ''qid'') = Inr (JInt n) \<longrightarrow>
    getitem row (asc ''model'') = Inr (JStr model) \<longrightarrow>
    getitem row (asc ''setting'') = Inr (JStr setting) \<longrightarrow>
      (\<exists>row' q'. find_row U answers_index (str_int n) model setting = Inr (n, row') \<and>
         Some row' \<in> set answers_file \<and>
         getitem row' (asc ''qid'') = Inr q' \<and> py_eq (JInt n) q' \<and>
         getitem row' (asc ''model'') = Inr (JStr model) \<and>
         getitem row' (asc ''setting'') = Inr (JStr setting)))"
  using split_custom_id_of [of model setting U n] py_int_str_int [of U n]
    find_row_of_answer [of answers_file answers_index row n model setting U]
  by blast

text \<open>
  With the model \<open>a|b\<close> the submitter makes a request whose \<open>custom_id\<close> splits into
  four parts, and the merger raises \<open>ValueError\<close> on the line that carries it.
\<close>

theorem custom_id_separator_counterexample:
  "\<forall>U. request_for [] U ex_truth_ds [] (ex_row 7 (asc ''a|b'') (asc ''s'') (JInt 0) (asc ''x''))
          = Inr (Some (request (custom_id U (JInt 7) (JStr (asc ''a|b'')) (JStr (asc ''s''))) [])) \<and>
        split_bar (custom_id U (JInt 7) (JStr (asc ''a|b'')) (JStr (asc ''s'')))
          = [asc ''7'', asc ''a'', asc ''b'', asc ''s''] \<and>
        split_custom_id
          (ex_result (custom_id U (JInt 7) (JStr (asc ''a|b'')) (JStr (asc ''s''))) (asc ''truthful''))
          = Inl ValueError"
proof (intro allI conjI)
  fix U
  have c: "custom_id U (JInt 7) (JStr (asc ''a|b'')) (JStr (asc ''s'')) = asc ''7|a|b|s''"
    by (simp add: custom_id_def str_int_def digits.simps asc_simps)
  have s: "split_bar (asc ''7|a|b|s'') = [asc ''7'', asc ''a'', asc ''b'', asc ''s'']"
    by (simp add: asc_simps)
  show "request_for [] U ex_truth_ds [] (ex_row 7 (asc ''a|b'') (asc ''s'') (JInt 0) (asc ''x''))
          = Inr (Some (request (custom_id U (JInt 7) (JStr (asc ''a|b'')) (JStr (asc ''s''))) []))"
    by (simp add: request_for_def ex_row_fields k_in_done_def ex_truth_ds_def build_prompt_def)
  show "split_bar (custom_id U (JInt 7) (JStr (asc ''a|b'')) (JStr (asc ''s'')))
          = [asc ''7'', asc ''a'', asc ''b'', asc ''s'']"
    by (simp only: c s)
  show "split_custom_id
          (ex_result (custom_id U (JInt 7) (JStr (asc ''a|b'')) (JStr (asc ''s''))) (asc ''truthful''))
          = Inl ValueError"
    by (simp add: ex_split c s)
qed

theorem custom_id_round_trip_witness:
  "\<forall>U. 124 \<notin> set (asc ''m'') \<and> 124 \<notin> set (asc ''a'') \<and>
        split_bar (custom_id U (JInt 7) (JStr (asc ''m'')) (JStr (asc ''a'')))
          = [str_int 7, asc ''m'', asc ''a''] \<and>
        py_int U (str_int 7) = Some 7 \<and>
        load_answers_index [Some (ex_row 7 (asc ''m'') (asc ''a'') (JInt 0) (asc ''x''))] =
          Inr [((JInt 7, JStr (asc ''m''), JStr (asc ''a'')),
                ex_row 7 (asc ''m'') (asc ''a'') (JInt 0) (asc ''x''))] \<and>
        (\<exists>row' q'. find_row U
           [((JInt 7, JStr (asc ''m''), JStr (asc ''a'')),
                ex_row 7 (asc ''m'') (asc ''a'') (JInt 0) (asc ''x''))] (str_int 7) (asc ''m'') (asc ''a'')
             = Inr (7, row') \<and>
           Some row' \<in> set [Some (ex_row 7 (asc ''m'') (asc ''a'') (JInt 0) (asc ''x''))] \<and>
           getitem row' (asc ''qid'') = Inr q' \<and> py_eq (JInt 7) q' \<and>
           getitem row' (asc ''model'') = Inr (JStr (asc ''m'')) \<and>
           getitem row' (asc ''setting'') = Inr (JStr (asc ''a'')))"
proof (intro allI)
  fix U
  let ?row = "ex_row 7 (asc ''m'') (asc ''a'') (JInt 0) (asc ''x'')"
  have a: "124 \<notin> set (asc ''m'')" "124 \<notin> set (asc ''a'')"
    by (simp_all add: asc_simps)
  have b: "Some ?row \<in> set [Some ?row]" by simp
  from custom_id_round_trip [of "asc ''m''" "asc ''a''" U 7 "[Some ?row]"
      "[((JInt 7, JStr (asc ''m''), JStr (asc ''a'')), ?row)]" ?row]
    a b ex_index ex_row_fields [of 7 "asc ''m''" "asc ''a''" "JInt 0" "asc ''x''"]
  show "124 \<notin> set (asc ''m'') \<and> 124 \<notin> set (asc ''a'') \<and>
        split_bar (custom_id U (JInt 7) (JStr (asc ''m'')) (JStr (asc ''a'')))
          = [str_int 7, asc ''m'', asc ''a''] \<and>
        py_int U (str_int 7) = Some 7 \<and>
        load_answers_index [Some ?row] =
          Inr [((JInt 7, JStr (asc ''m''), JStr (asc ''a'')), ?row)] \<and>
        (\<exists>row' q'. find_row U
           [((JInt 7, JStr (asc ''m''), JStr (asc ''a'')), ?row)] (str_int 7) (asc ''m'') (asc ''a'')
             = Inr (7, row') \<and>
           Some row' \<in> set [Some ?row] \<and>
           getitem row' (asc ''qid'') = Inr q' \<and> py_eq (JInt 7) q' \<and>
           getitem row' (asc ''model'') = Inr (JStr (asc ''m'')) \<and>
           getitem row' (asc ''setting'') = Inr (JStr (asc ''a'')))"
    by blast
qed

subsection \<open>The dedup identity\<close>

lemma ex_eval_fields:
  "getitem (ex_eval category n eval_txt model temp answer label) (asc ''Question_ind'') = Inr (JInt n)"
  "getitem (ex_eval category n eval_txt model temp answer label) (asc ''Model'') = Inr (JStr model)"
  "getitem (ex_eval category n eval_txt model temp answer label) (asc ''Temperature'') = Inr temp"
  by (simp_all add: ex_eval_def asc_simps)

lemma ex_judge:
  assumes "extract_label U (py_strip (lstrip_bom content)) = Inr (Some l)"
  shows "judge extract_label U category (ex_result cid content) n model temp
           (ex_row q model' setting temp' answer)
         = Inr (Some (ex_eval category n (py_strip (lstrip_bom content)) model temp answer l))"
proof -
  have l: "getitem (ex_choice content) (asc ''logprobs'') = Inr (JObj [(asc ''content'', JArr [])])"
    by (simp add: ex_choice_def asc_simps)
  have n: "normalise_logprobs (JObj [(asc ''content'', JArr [])]) = Inr (JArr [])"
    by (simp add: normalise_logprobs_def asc_simps)
  show ?thesis
    by (simp add: judge_def ex_get_choice ex_get_eval_txt l n assms evaluation_record_def
        ex_row_fields ex_eval_def)
qed


lemma done_key_of_Inr:
  assumes "done_key_of U line = Inr (m, t, qs)"
  shows "\<exists>q. log_identity line = Some (m, t, q) \<and> qs = py_str U q"
  using assms
  by (auto simp: done_key_of_def log_identity_def bnd_Inr_iff split: option.splits if_splits)

lemma load_done_logged:
  assumes "load_done U output_file = Inr already_done"
  shows "list_ex (\<lambda>(m, t, q). key_eq (JStr model) m \<and> key_eq temp t \<and> q = qid) already_done
           = logged U output_file model temp qid"
  using assms
proof (induction output_file arbitrary: already_done)
  case Nil
  then show ?case by (simp add: load_done_def logged_def)
next
  case (Cons line output_file)
  from Cons.prems obtain k ks where
    k: "done_key_of U line = Inr k" and ks: "map_r (done_key_of U) output_file = Inr ks" and
    d: "already_done = k # ks"
    by (auto simp: load_done_def bnd_Inr_iff)
  obtain m t qs where mtq: "k = (m, t, qs)" by (cases k) auto
  from done_key_of_Inr [OF k [unfolded mtq]] obtain q where
    q: "log_identity line = Some (m, t, q)" "qs = py_str U q"
    by blast
  from ks have "load_done U output_file = Inr ks" by (simp add: load_done_def)
  from Cons.IH [OF this] d mtq q show ?case
    by (simp add: logged_def)
qed

lemma key_in_done_logged:
  assumes "load_done U output_file = Inr already_done"
  shows "key_in_done (model, temp, qid) already_done =
           (if hashable temp then Inr (logged U output_file model temp qid) else Inl TypeError)"
  using load_done_logged [OF assms, of model temp qid]
  by (simp add: key_in_done_def)

lemma merge_loop_new_records:
  assumes "merge_loop extract_label U category answers_index already_done lines output_file added
             = (written, Finished k)"
  shows "written = output_file @
           map Some (new_records extract_label U category answers_index already_done lines) \<and>
         k = added + length (new_records extract_label U category answers_index already_done lines)"
  using assms
proof (induction lines arbitrary: output_file added)
  case Nil
  then show ?case by (simp add: new_records_def)
next
  case (Cons line lines)
  show ?case
  proof (cases "merge_line extract_label U category answers_index already_done line")
    case (Inl e)
    with Cons.prems show ?thesis by simp
  next
    case (Inr res)
    show ?thesis
    proof (cases res)
      case None
      with Inr Cons.prems
      have "merge_loop extract_label U category answers_index already_done lines output_file added
              = (written, Finished k)"
        by simp
      from Cons.IH [OF this] Inr None show ?thesis by (simp add: new_records_def)
    next
      case (Some r)
      show ?thesis
      proof (cases "append_jsonl r output_file")
        case (Inl e)
        with Inr Some Cons.prems show ?thesis by simp
      next
        case app: (Inr f')
        then have f': "f' = output_file @ [Some r]"
          by (rule append_jsonl_Inr)
        from Inr Some app Cons.prems
        have "merge_loop extract_label U category answers_index already_done lines f' (added + 1)
                = (written, Finished k)"
          by simp
        from Cons.IH [OF this] f' Inr Some show ?thesis by (simp add: new_records_def)
      qed
    qed
  qed
qed

text \<open>
  C3. The claim is that the dedup identity is exactly the triple (model, temperature,
  question id), and that of two batch results with the same triple the second is skipped
  once the first is appended. The pollers compare a result with the index that
  \<open>load_done\<close> built from the evaluation log before the loop, and the loop does not add to
  that index. With the index read from the log: the test \<^verbatim>\<open>key in already_done\<close> is true
  exactly when the triple of the result is logged; the loop body skips the result exactly
  then and otherwise goes on to the judge text, so the judge text, the answer, the
  log-probabilities, the label and the category play no part in the test; and a run that
  goes through appends the record of every line that passes the test against that index,
  each line on its own, whatever the run appended before it.
\<close>

theorem dedup_identity_is_the_triple:
  assumes ld: "load_done U output_file = Inr already_done"
  shows "key_in_done (model, temp, qid) already_done =
           (if hashable temp then Inr (logged U output_file model temp qid) else Inl TypeError) \<and>
         (split_custom_id rec = Inr (qid, model, setting) \<longrightarrow>
          find_row U answers_index qid model setting = Inr (n, row) \<longrightarrow>
          getitem row (asc ''temperature'') = Inr temp \<longrightarrow>
          merge_line extract_label U category answers_index already_done (Some rec) =
            (if \<not> hashable temp then Inl TypeError
             else if logged U output_file model temp qid then Inr None
             else judge extract_label U category rec n model temp row)) \<and>
         (merge_loop extract_label U category answers_index already_done lines output_file added
            = (written, Finished k) \<longrightarrow>
          written = output_file @
            map Some (new_records extract_label U category answers_index already_done lines) \<and>
          k = added + length (new_records extract_label U category answers_index already_done lines))"
proof (intro conjI impI)
  show a: "key_in_done (model, temp, qid) already_done =
           (if hashable temp then Inr (logged U output_file model temp qid) else Inl TypeError)"
    by (rule key_in_done_logged [OF ld])
  assume "split_custom_id rec = Inr (qid, model, setting)"
    and "find_row U answers_index qid model setting = Inr (n, row)"
    and "getitem row (asc ''temperature'') = Inr temp"
  with a show "merge_line extract_label U category answers_index already_done (Some rec) =
            (if \<not> hashable temp then Inl TypeError
             else if logged U output_file model temp qid then Inr None
             else judge extract_label U category rec n model temp row)"
    by (simp add: merge_line_def)
next
  assume m: "merge_loop extract_label U category answers_index already_done lines output_file added
            = (written, Finished k)"
  from merge_loop_new_records [OF m]
  show "written = output_file @
            map Some (new_records extract_label U category answers_index already_done lines)"
    and "k = added + length (new_records extract_label U category answers_index already_done lines)"
    by simp_all
qed

lemma strip_plain:
  "py_strip (lstrip_bom (asc ''truthful'')) = asc ''truthful''"
  "py_strip (lstrip_bom (asc ''hallucinated'')) = asc ''hallucinated''"
  by (simp_all add: py_strip_def lstrip_bom_def isspace_def asc_simps)

lemma label_plain:
  "extract_label_batches U (asc ''truthful'') = Inr (Some (asc ''truthful''))"
  "extract_label_batches U (asc ''hallucinated'') = Inr (Some (asc ''hallucinated''))"
  by (simp_all add: extract_label_batches_def re_eval py_lower_def ascii_lower_def)

lemma ex_index2:
  "load_answers_index
     [Some (ex_row 7 (asc ''m'') (asc ''a'') (JInt 0) (asc ''x'')),
      Some (ex_row 7 (asc ''m'') (asc ''b'') (JInt 0) (asc ''y''))] =
   Inr [((JInt 7, JStr (asc ''m''), JStr (asc ''a'')),
          ex_row 7 (asc ''m'') (asc ''a'') (JInt 0) (asc ''x'')),
        ((JInt 7, JStr (asc ''m''), JStr (asc ''b'')),
          ex_row 7 (asc ''m'') (asc ''b'') (JInt 0) (asc ''y''))]"
  by (simp add: load_answers_index_def index_entry_def ex_row_fields)

lemma py_int_7: "py_int U (asc ''7'') = Some 7"
  by (simp add: py_int_def int_strip_def int_space_def isspace_def digit_val_def asc_simps)

lemma ex_find_row2:
  "find_row U
     [((JInt 7, JStr (asc ''m''), JStr (asc ''a'')),
          ex_row 7 (asc ''m'') (asc ''a'') (JInt 0) (asc ''x'')),
      ((JInt 7, JStr (asc ''m''), JStr (asc ''b'')),
          ex_row 7 (asc ''m'') (asc ''b'') (JInt 0) (asc ''y''))] (asc ''7'') (asc ''m'') (asc ''a'')
   = Inr (7, ex_row 7 (asc ''m'') (asc ''a'') (JInt 0) (asc ''x''))"
  "find_row U
     [((JInt 7, JStr (asc ''m''), JStr (asc ''a'')),
          ex_row 7 (asc ''m'') (asc ''a'') (JInt 0) (asc ''x'')),
      ((JInt 7, JStr (asc ''m''), JStr (asc ''b'')),
          ex_row 7 (asc ''m'') (asc ''b'') (JInt 0) (asc ''y''))] (asc ''7'') (asc ''m'') (asc ''b'')
   = Inr (7, ex_row 7 (asc ''m'') (asc ''b'') (JInt 0) (asc ''y''))"
  by (simp_all add: find_row_def py_int_7) (simp_all add: index_lookup_def key3_eq_def asc_simps)

lemma ex_split_7:
  "split_custom_id (ex_result (asc ''7|m|a'') content) = Inr (asc ''7'', asc ''m'', asc ''a'')"
  "split_custom_id (ex_result (asc ''7|m|b'') content) = Inr (asc ''7'', asc ''m'', asc ''b'')"
  by (simp_all add: ex_split asc_simps)

lemma ex_merge_line_a:
  "merge_line extract_label_batches U category
     [((JInt 7, JStr (asc ''m''), JStr (asc ''a'')),
          ex_row 7 (asc ''m'') (asc ''a'') (JInt 0) (asc ''x'')),
      ((JInt 7, JStr (asc ''m''), JStr (asc ''b'')),
          ex_row 7 (asc ''m'') (asc ''b'') (JInt 0) (asc ''y''))] []
     (Some (ex_result (asc ''7|m|a'') (asc ''truthful'')))
   = Inr (Some (ex_eval category 7 (asc ''truthful'') (asc ''m'') (JInt 0) (asc ''x'') (asc ''truthful'')))"
  by (simp add: merge_line_def ex_split_7 ex_find_row2 ex_row_fields key_in_done_def
      ex_judge strip_plain label_plain)

lemma ex_merge_line_b:
  "merge_line extract_label_batches U category
     [((JInt 7, JStr (asc ''m''), JStr (asc ''a'')),
          ex_row 7 (asc ''m'') (asc ''a'') (JInt 0) (asc ''x'')),
      ((JInt 7, JStr (asc ''m''), JStr (asc ''b'')),
          ex_row 7 (asc ''m'') (asc ''b'') (JInt 0) (asc ''y''))] []
     (Some (ex_result (asc ''7|m|b'') (asc ''hallucinated'')))
   = Inr (Some (ex_eval category 7 (asc ''hallucinated'') (asc ''m'') (JInt 0) (asc ''y'')
                  (asc ''hallucinated'')))"
  by (simp add: merge_line_def ex_split_7 ex_find_row2 ex_row_fields key_in_done_def
      ex_judge strip_plain label_plain)

lemma ex_eval_encodable:
  "encodable (category 7) \<Longrightarrow>
   encodable (ex_eval category 7 (asc ''truthful'') (asc ''m'') (JInt 0) (asc ''x'') (asc ''truthful''))"
  "encodable (category 7) \<Longrightarrow>
   encodable (ex_eval category 7 (asc ''hallucinated'') (asc ''m'') (JInt 0) (asc ''y'')
                  (asc ''hallucinated''))"
  by (simp_all add: ex_eval_def utf8_ok_def asc_simps)

lemma completed: "poll [asc ''completed''] = Some (asc ''completed'')"
  by (simp add: terminal_def)

text \<open>
  Two results of one batch output for the same model and question, made with two settings
  of equal temperature, are both appended in one run: the second is not skipped although
  the first has been appended, and the log ends with two records of the same identity.
\<close>

theorem same_run_duplicates_counterexample:
  "\<forall>U. poller extract_label_batches U (\<lambda>n. JNull) (Some (asc ''sk''))
          [Some (ex_row 7 (asc ''m'') (asc ''a'') (JInt 0) (asc ''x'')),
           Some (ex_row 7 (asc ''m'') (asc ''b'') (JInt 0) (asc ''y''))]
          [] [asc ''completed'']
          [Some (ex_result (asc ''7|m|a'') (asc ''truthful'')),
           Some (ex_result (asc ''7|m|b'') (asc ''hallucinated''))]
        = ([Some (ex_eval (\<lambda>n. JNull) 7 (asc ''truthful'') (asc ''m'') (JInt 0) (asc ''x'')
                    (asc ''truthful'')),
            Some (ex_eval (\<lambda>n. JNull) 7 (asc ''hallucinated'') (asc ''m'') (JInt 0) (asc ''y'')
                    (asc ''hallucinated''))],
           Finished 2)"
proof
  fix U
  have k: "asc ''sk'' \<noteq> []" by (simp add: asc_simps)
  show "poller extract_label_batches U (\<lambda>n. JNull) (Some (asc ''sk''))
          [Some (ex_row 7 (asc ''m'') (asc ''a'') (JInt 0) (asc ''x'')),
           Some (ex_row 7 (asc ''m'') (asc ''b'') (JInt 0) (asc ''y''))]
          [] [asc ''completed'']
          [Some (ex_result (asc ''7|m|a'') (asc ''truthful'')),
           Some (ex_result (asc ''7|m|b'') (asc ''hallucinated''))]
        = ([Some (ex_eval (\<lambda>n. JNull) 7 (asc ''truthful'') (asc ''m'') (JInt 0) (asc ''x'')
                    (asc ''truthful'')),
            Some (ex_eval (\<lambda>n. JNull) 7 (asc ''hallucinated'') (asc ''m'') (JInt 0) (asc ''y'')
                    (asc ''hallucinated''))],
           Finished 2)"
    unfolding poller_def
    by (simp add: k ex_index2 load_done_def terminal_def ex_merge_line_a ex_merge_line_b
        append_jsonl_def ex_eval_encodable)
qed

lemma str_int_7: "str_int 7 = asc ''7''"
  by (simp add: str_int_def digits.simps asc_simps)

lemma ex_load_done_1:
  "load_done U [Some (ex_eval category 7 eval_txt (asc ''m'') (JInt 0) answer label)]
     = Inr [(JStr (asc ''m''), JInt 0, asc ''7'')]"
  by (simp add: load_done_def done_key_of_def ex_eval_fields str_int_7)

lemma ex_logged_7:
  "logged U [Some (ex_eval category 7 eval_txt (asc ''m'') (JInt 0) answer label)]
     (asc ''m'') (JInt 0) (asc ''7'')"
  by (simp add: logged_def log_identity_def ex_eval_fields str_int_7)

lemma ex_merge_line_b_seen:
  "merge_line extract_label_batches U category
     [((JInt 7, JStr (asc ''m''), JStr (asc ''a'')),
          ex_row 7 (asc ''m'') (asc ''a'') (JInt 0) (asc ''x'')),
      ((JInt 7, JStr (asc ''m''), JStr (asc ''b'')),
          ex_row 7 (asc ''m'') (asc ''b'') (JInt 0) (asc ''y''))]
     [(JStr (asc ''m''), JInt 0, asc ''7'')]
     (Some (ex_result (asc ''7|m|b'') (asc ''hallucinated''))) = Inr None"
  by (simp add: merge_line_def ex_split_7 ex_find_row2 ex_row_fields key_in_done_def)

theorem dedup_identity_is_the_triple_witness:
  "\<forall>U category.
     load_done U [Some (ex_eval category 7 (asc ''truthful'') (asc ''m'') (JInt 0) (asc ''x'')
                    (asc ''truthful''))]
       = Inr [(JStr (asc ''m''), JInt 0, asc ''7'')] \<and>
     split_custom_id (ex_result (asc ''7|m|b'') (asc ''hallucinated''))
       = Inr (asc ''7'', asc ''m'', asc ''b'') \<and>
     find_row U
       [((JInt 7, JStr (asc ''m''), JStr (asc ''a'')),
          ex_row 7 (asc ''m'') (asc ''a'') (JInt 0) (asc ''x'')),
        ((JInt 7, JStr (asc ''m''), JStr (asc ''b'')),
          ex_row 7 (asc ''m'') (asc ''b'') (JInt 0) (asc ''y''))] (asc ''7'') (asc ''m'') (asc ''b'')
       = Inr (7, ex_row 7 (asc ''m'') (asc ''b'') (JInt 0) (asc ''y'')) \<and>
     getitem (ex_row 7 (asc ''m'') (asc ''b'') (JInt 0) (asc ''y'')) (asc ''temperature'')
       = Inr (JInt 0) \<and>
     merge_loop extract_label_batches U category
       [((JInt 7, JStr (asc ''m''), JStr (asc ''a'')),
          ex_row 7 (asc ''m'') (asc ''a'') (JInt 0) (asc ''x'')),
        ((JInt 7, JStr (asc ''m''), JStr (asc ''b'')),
          ex_row 7 (asc ''m'') (asc ''b'') (JInt 0) (asc ''y''))]
       [(JStr (asc ''m''), JInt 0, asc ''7'')]
       [Some (ex_result (asc ''7|m|b'') (asc ''hallucinated''))]
       [Some (ex_eval category 7 (asc ''truthful'') (asc ''m'') (JInt 0) (asc ''x'')
                (asc ''truthful''))] 0
       = ([Some (ex_eval category 7 (asc ''truthful'') (asc ''m'') (JInt 0) (asc ''x'')
                   (asc ''truthful''))], Finished 0) \<and>
     key_in_done (asc ''m'', JInt 0, asc ''7'') [(JStr (asc ''m''), JInt 0, asc ''7'')] = Inr True \<and>
     merge_line extract_label_batches U category
       [((JInt 7, JStr (asc ''m''), JStr (asc ''a'')),
          ex_row 7 (asc ''m'') (asc ''a'') (JInt 0) (asc ''x'')),
        ((JInt 7, JStr (asc ''m''), JStr (asc ''b'')),
          ex_row 7 (asc ''m'') (asc ''b'') (JInt 0) (asc ''y''))]
       [(JStr (asc ''m''), JInt 0, asc ''7'')]
       (Some (ex_result (asc ''7|m|b'') (asc ''hallucinated''))) = Inr None \<and>
     new_records extract_label_batches U category
       [((JInt 7, JStr (asc ''m''), JStr (asc ''a'')),
          ex_row 7 (asc ''m'') (asc ''a'') (JInt 0) (asc ''x'')),
        ((JInt 7, JStr (asc ''m''), JStr (asc ''b'')),
          ex_row 7 (asc ''m'') (asc ''b'') (JInt 0) (asc ''y''))]
       [(JStr (asc ''m''), JInt 0, asc ''7'')]
       [Some (ex_result (asc ''7|m|b'') (asc ''hallucinated''))] = []"
proof (intro allI)
  fix U category
  let ?r = "ex_eval category 7 (asc ''truthful'') (asc ''m'') (JInt 0) (asc ''x'') (asc ''truthful'')"
  let ?idx = "[((JInt 7, JStr (asc ''m''), JStr (asc ''a'')),
          ex_row 7 (asc ''m'') (asc ''a'') (JInt 0) (asc ''x'')),
        ((JInt 7, JStr (asc ''m''), JStr (asc ''b'')),
          ex_row 7 (asc ''m'') (asc ''b'') (JInt 0) (asc ''y''))]"
  let ?done = "[(JStr (asc ''m''), JInt 0, asc ''7'')]"
  let ?line = "ex_result (asc ''7|m|b'') (asc ''hallucinated'')"
  have ld: "load_done U [Some ?r] = Inr ?done"
    by (rule ex_load_done_1)
  have cid: "split_custom_id ?line = Inr (asc ''7'', asc ''m'', asc ''b'')"
    by (rule ex_split_7)
  have row: "find_row U ?idx (asc ''7'') (asc ''m'') (asc ''b'')
       = Inr (7, ex_row 7 (asc ''m'') (asc ''b'') (JInt 0) (asc ''y''))"
    by (rule ex_find_row2)
  have temp: "getitem (ex_row 7 (asc ''m'') (asc ''b'') (JInt 0) (asc ''y'')) (asc ''temperature'')
       = Inr (JInt 0)"
    by (rule ex_row_fields)
  have run: "merge_loop extract_label_batches U category ?idx ?done [Some ?line] [Some ?r] 0
       = ([Some ?r], Finished 0)"
    by (simp add: ex_merge_line_b_seen)
  have lg: "logged U [Some ?r] (asc ''m'') (JInt 0) (asc ''7'')"
    by (rule ex_logged_7)
  from dedup_identity_is_the_triple [OF ld, of "asc ''m''" "JInt 0" "asc ''7''" ?line "asc ''b''"
      ?idx 7 "ex_row 7 (asc ''m'') (asc ''b'') (JInt 0) (asc ''y'')" extract_label_batches category
      "[Some ?line]" 0 "[Some ?r]" 0]
    ld cid row temp run lg
  show "load_done U [Some ?r] = Inr ?done \<and>
     split_custom_id ?line = Inr (asc ''7'', asc ''m'', asc ''b'') \<and>
     find_row U ?idx (asc ''7'') (asc ''m'') (asc ''b'')
       = Inr (7, ex_row 7 (asc ''m'') (asc ''b'') (JInt 0) (asc ''y'')) \<and>
     getitem (ex_row 7 (asc ''m'') (asc ''b'') (JInt 0) (asc ''y'')) (asc ''temperature'')
       = Inr (JInt 0) \<and>
     merge_loop extract_label_batches U category ?idx ?done [Some ?line] [Some ?r] 0
       = ([Some ?r], Finished 0) \<and>
     key_in_done (asc ''m'', JInt 0, asc ''7'') ?done = Inr True \<and>
     merge_line extract_label_batches U category ?idx ?done (Some ?line) = Inr None \<and>
     new_records extract_label_batches U category ?idx ?done [Some ?line] = []"
    by simp
qed

subsection \<open>Running the merge step twice\<close>













text \<open>
  The \<open>custom_id\<close> that the submitter writes for a row with an \<open>int\<close> question id starts
  with the decimal form of that id, so a batch output that answers the submitter's requests
  has its question ids in that form.
\<close>

lemma submitted_id_canonical:
  assumes "getitem rec (asc ''custom_id'') = Inr (JStr (custom_id U (JInt n) model setting))"
    and "split_custom_id rec = Inr (qid, model', setting')"
  shows "qid = str_int n"
proof -
  have "split_bar (custom_id U (JInt n) model setting) =
          str_int n # split_bar (py_str U model @ [124] @ py_str U setting)"
    using str_int_no_bar [of n] by (simp add: custom_id_def split_bar_append)
  with assms show ?thesis
    by (auto simp: split_custom_id_def split: list.splits)
qed

















subsection \<open>The heuristics of extract_label\<close>















end
